theory Spec2Isabelle
  imports
    Complex_Main
    "HOL-Library.Word"
    "HOL-Library.DAList"
    "HOL-Library.Char_ord"
    "HOL-Library.List_Lexorder"
    "HOL-Library.Product_Lexorder"
begin

section \<open>Exceptions of the Python source\<close>

text \<open>
  Every exception that the modelled part of \<^verbatim>\<open>lopocs/itowns.py\<close> can raise is a
  constructor; a function that can raise returns \<open>error + 'a\<close> with \<open>Inl\<close> the exception.
  \<open>StoreError\<close> stands for any failure of the database collaborator.
\<close>

datatype error =
    UnboundLocalError
  | OverflowError
  | ZeroDivisionError
  | TypeError
  | ValueError
  | StructError
  | StoreError

section \<open>Bounding boxes and the octant codec\<close>

text \<open>
  \<^verbatim>\<open>the_bbox = namedtuple('bbox', ['xmin', 'ymin', 'zmin', 'xmax', 'ymax', 'zmax'])\<close>.
  Coordinates are Python floats; they are modelled as exact reals, so the rounding of
  IEEE arithmetic is outside this development.
\<close>

record bbox =
  xmin :: real
  ymin :: real
  zmin :: real
  xmax :: real
  ymax :: real
  zmax :: real

definition the_bbox :: "real \<Rightarrow> real \<Rightarrow> real \<Rightarrow> real \<Rightarrow> real \<Rightarrow> real \<Rightarrow> bbox" where
  "the_bbox a b c d e f = \<lparr>xmin = a, ymin = b, zmin = c, xmax = d, ymax = e, zmax = f\<rparr>"

definition half_size :: "bbox \<Rightarrow> real \<times> real \<times> real" where
  "half_size parent =
     ((xmax parent - xmin parent) / 2,
      (ymax parent - ymin parent) / 2,
      (zmax parent - zmin parent) / 2)"

text \<open>
  \<^verbatim>\<open>get_child(parent, numchild)\<close>: an \<^verbatim>\<open>if/elif\<close> chain over the eight values of
  \<^verbatim>\<open>numchild\<close>. For any other value no branch binds \<^verbatim>\<open>child\<close> and
  \<^verbatim>\<open>return child\<close> raises \<^verbatim>\<open>UnboundLocalError\<close>.
\<close>

definition get_child :: "bbox \<Rightarrow> int \<Rightarrow> error + bbox" where
  "get_child parent numchild =
     (case half_size parent of (hx, hy, hz) \<Rightarrow>
        if numchild = 0 then
          Inr (the_bbox (xmin parent) (ymin parent) (zmin parent)
                 (xmin parent + hx) (ymin parent + hy) (zmin parent + hz))
        else if numchild = 1 then
          Inr (the_bbox (xmin parent) (ymin parent) (zmin parent + hz)
                 (xmin parent + hx) (ymin parent + hy) (zmax parent))
        else if numchild = 2 then
          Inr (the_bbox (xmin parent) (ymin parent + hy) (zmin parent)
                 (xmin parent + hx) (ymax parent) (zmin parent + hz))
        else if numchild = 3 then
          Inr (the_bbox (xmin parent) (ymin parent + hy) (zmin parent + hz)
                 (xmin parent + hx) (ymax parent) (zmax parent))
        else if numchild = 4 then
          Inr (the_bbox (xmin parent + hx) (ymin parent) (zmin parent)
                 (xmax parent) (ymin parent + hy) (zmin parent + hz))
        else if numchild = 5 then
          Inr (the_bbox (xmin parent + hx) (ymin parent) (zmin parent + hz)
                 (xmax parent) (ymin parent + hy) (zmax parent))
        else if numchild = 6 then
          Inr (the_bbox (xmin parent + hx) (ymin parent + hy) (zmin parent)
                 (xmax parent) (ymax parent) (zmin parent + hz))
        else if numchild = 7 then
          Inr (the_bbox (xmin parent + hx) (ymin parent + hy) (zmin parent + hz)
                 (xmax parent) (ymax parent) (zmax parent))
        else Inl UnboundLocalError)"

text \<open>The invariant of the data model: minimum at most maximum on every axis.\<close>

definition valid_bbox :: "bbox \<Rightarrow> bool" where
  "valid_bbox b \<longleftrightarrow> xmin b \<le> xmax b \<and> ymin b \<le> ymax b \<and> zmin b \<le> zmax b"

definition volume :: "bbox \<Rightarrow> real" where
  "volume b = (xmax b - xmin b) * (ymax b - ymin b) * (zmax b - zmin b)"

text \<open>A point lies in the interior of a box, respectively in the closed box.\<close>

definition interior_pt :: "bbox \<Rightarrow> real \<times> real \<times> real \<Rightarrow> bool" where
  "interior_pt b p =
     (case p of (x, y, z) \<Rightarrow>
        xmin b < x \<and> x < xmax b \<and> ymin b < y \<and> y < ymax b \<and> zmin b < z \<and> z < zmax b)"

definition closed_pt :: "bbox \<Rightarrow> real \<times> real \<times> real \<Rightarrow> bool" where
  "closed_pt b p =
     (case p of (x, y, z) \<Rightarrow>
        xmin b \<le> x \<and> x \<le> xmax b \<and> ymin b \<le> y \<and> y \<le> ymax b \<and> zmin b \<le> z \<and> z \<le> zmax b)"

text \<open>Box \<open>c\<close> lies within box \<open>p\<close>.\<close>

definition inside_box :: "bbox \<Rightarrow> bbox \<Rightarrow> bool" where
  "inside_box c p \<longleftrightarrow>
     xmin p \<le> xmin c \<and> xmax c \<le> xmax p \<and> ymin p \<le> ymin c \<and> ymax c \<le> ymax p \<and>
     zmin p \<le> zmin c \<and> zmax c \<le> zmax p"

subsection \<open>The two readings of the child index\<close>

text \<open>
  The low half of an axis is \<open>[lo, lo + (hi - lo) / 2]\<close>, the high half is
  \<open>[lo + (hi - lo) / 2, hi]\<close>; a flag selects one of them.
\<close>

definition select_half :: "bool \<Rightarrow> real \<Rightarrow> real \<Rightarrow> real \<times> real" where
  "select_half high lo hi =
     (if high then (lo + (hi - lo) / 2, hi) else (lo, lo + (hi - lo) / 2))"

definition box_of_halves :: "real \<times> real \<Rightarrow> real \<times> real \<Rightarrow> real \<times> real \<Rightarrow> bbox" where
  "box_of_halves hx hy hz = the_bbox (fst hx) (fst hy) (fst hz) (snd hx) (snd hy) (snd hz)"

text \<open>
  The mapping as the specification words it: bit 0 (value 1) selects the X half,
  bit 1 (value 2) the Y half, bit 2 (value 4) the Z half.
\<close>

definition child_spec_xyz :: "bbox \<Rightarrow> int \<Rightarrow> bbox" where
  "child_spec_xyz parent i =
     box_of_halves
       (select_half (odd i) (xmin parent) (xmax parent))
       (select_half (odd (i div 2)) (ymin parent) (ymax parent))
       (select_half (odd (i div 4)) (zmin parent) (zmax parent))"

text \<open>
  The mapping that the branches of \<^verbatim>\<open>get_child\<close> implement: bit 0 (value 1) selects
  the Z half, bit 1 (value 2) the Y half, bit 2 (value 4) the X half.
\<close>

definition child_bits_zyx :: "bbox \<Rightarrow> int \<Rightarrow> bbox" where
  "child_bits_zyx parent i =
     box_of_halves
       (select_half (odd (i div 4)) (xmin parent) (xmax parent))
       (select_half (odd (i div 2)) (ymin parent) (ymax parent))
       (select_half (odd i) (zmin parent) (zmax parent))"

section \<open>Points, queries and the session\<close>

text \<open>
  A decoded patch is a numpy structured array: every row has the raw coordinates
  \<^verbatim>\<open>X\<close>, \<^verbatim>\<open>Y\<close>, \<^verbatim>\<open>Z\<close>; the colour fields \<^verbatim>\<open>Red\<close>, \<^verbatim>\<open>Green\<close>, \<^verbatim>\<open>Blue\<close> and the field
  \<^verbatim>\<open>Classification\<close> are optional and present for all rows or for none. The flags
  \<open>has_rgb\<close> and \<open>has_classification\<close> stand for \<^verbatim>\<open>'Red' in fields\<close> and
  \<^verbatim>\<open>'Classification' in fields\<close>; the value of an absent field is never read.
\<close>

record point =
  X :: real
  Y :: real
  Z :: real
  Red :: int
  Green :: int
  Blue :: int
  Classification :: int

record pointarray =
  has_rgb :: bool
  has_classification :: bool
  rows :: "point list"

text \<open>
  Both SQL templates are filled with the diagonal and the edges of one box and with the
  \<^verbatim>\<open>start\<close> and \<^verbatim>\<open>count\<close> of \<^verbatim>\<open>pc_range\<close>; table, column and SRS are constants of
  the session. A query is the triple that varies.
\<close>

record range_query =
  q_box :: bbox
  q_start :: int
  q_count :: int

text \<open>
  The session object with the database behind it. Both statements are aggregates
  without \<^verbatim>\<open>GROUP BY\<close>, so \<^verbatim>\<open>session.query(sql)\<close> returns exactly one row with one
  cell and \<^verbatim>\<open>[0][0]\<close> reads it: \<open>None\<close> is SQL \<^verbatim>\<open>NULL\<close>. A failing statement raises
  (\<open>Inl\<close>). \<open>hierarchy_answer\<close> answers \<^verbatim>\<open>HIERARCHY_QUERY\<close>, \<open>point_answer\<close> answers
  \<^verbatim>\<open>POINT_QUERY\<close> with the patch blob, given here by the rows it holds.
\<close>

record session =
  nbpoints :: int
  patch_size :: int
  boundingbox :: bbox
  psize_threshold1 :: int
  psize_threshold2 :: int
  hierarchy_answer :: "range_query \<Rightarrow> error + int option"
  point_answer :: "range_query \<Rightarrow> error + pointarray option"

section \<open>The point budget per level of detail\<close>

definition SKIP_LOD_POINT_LIMIT :: int where
  "SKIP_LOD_POINT_LIMIT = 60000"

definition NODE_POINT_LIMIT :: int where
  "NODE_POINT_LIMIT = 20000"

text \<open>
  Python 3 \<^verbatim>\<open>round(x)\<close> of a float: the nearest integer, a tie going to the even one.
\<close>

definition py_round :: "real \<Rightarrow> int" where
  "py_round x =
     (let f = \<lfloor>x\<rfloor>; d = x - of_int f in
      if d < 1 / 2 then f
      else if 1 / 2 < d then f + 1
      else if even f then f else f + 1)"

text \<open>
  \<^verbatim>\<open>prepare_session_lod_threshold(session)\<close>. The quotient \<^verbatim>\<open>nbpoints / patch_size\<close> is
  Python 3 true division, which raises \<^verbatim>\<open>ZeroDivisionError\<close> for a zero divisor;
  \<^verbatim>\<open>log(x, 8)\<close> is the real logarithm to base 8 and is only taken of quotients at least 1.
\<close>

definition prepare_session_lod_threshold :: "session \<Rightarrow> error + session" where
  "prepare_session_lod_threshold s =
     (if patch_size s = 0 then Inl ZeroDivisionError
      else
        let patch_count = real_of_int (nbpoints s) / real_of_int (patch_size s);
            t1 = (if patch_count < real_of_int SKIP_LOD_POINT_LIMIT then - 1
                  else py_round (log 8 (patch_count / real_of_int SKIP_LOD_POINT_LIMIT)));
            t2 = (if patch_count < real_of_int NODE_POINT_LIMIT then - 1
                  else py_round (log 8 (patch_count / real_of_int NODE_POINT_LIMIT)))
        in Inr (s\<lparr>psize_threshold1 := t1, psize_threshold2 := t2\<rparr>))"

text \<open>
  \<^verbatim>\<open>int(pow(8, power))\<close> with \<^verbatim>\<open>math.pow\<close>: for the exponent \<open>pw\<close> the result is the
  double \<open>2 ^ (3 * pw)\<close>, which is exact up to \<open>2 ^ 1023\<close>, that is for \<open>pw \<le> 341\<close>; beyond, \<^verbatim>\<open>math.pow\<close>
  raises \<^verbatim>\<open>OverflowError\<close>. For a negative power the double lies in \<open>[0, 1)\<close> and
  \<^verbatim>\<open>int\<close> truncates it to 0.
\<close>

definition int_pow8 :: "int \<Rightarrow> error + int" where
  "int_pow8 pw =
     (if 341 < pw then Inl OverflowError
      else if pw < 0 then Inr 0
      else Inr (8 ^ nat pw))"

definition compute_psize :: "session \<Rightarrow> int \<Rightarrow> error + int" where
  "compute_psize s lod =
     (if lod \<le> psize_threshold1 s then Inr 0
      else if lod \<le> psize_threshold2 s then Inr 1
      else int_pow8 (lod - (if 0 \<le> psize_threshold2 s then psize_threshold2 s + 1 else 0)))"

text \<open>
  The budget as the specification words it, without the range of the float power.
\<close>

definition psize_spec :: "int \<Rightarrow> int \<Rightarrow> int \<Rightarrow> int" where
  "psize_spec threshold1 threshold2 lod =
     (if lod \<le> threshold1 then 0
      else if lod \<le> threshold2 then 1
      else 8 ^ nat (lod - (if 0 \<le> threshold2 then threshold2 + 1 else 0)))"

text \<open>A session whose store holds nothing, with the given sizes and thresholds.\<close>

definition empty_session :: "int \<Rightarrow> int \<Rightarrow> int \<Rightarrow> int \<Rightarrow> session" where
  "empty_session n psz t1 t2 =
     \<lparr>nbpoints = n, patch_size = psz, boundingbox = the_bbox 0 0 0 10 10 10,
      psize_threshold1 = t1, psize_threshold2 = t2,
      hierarchy_answer = (\<lambda>q. Inr None), point_answer = (\<lambda>q. Inr None)\<rparr>"

section \<open>The point estimator\<close>

text \<open>
  Adding up a list of results: the list comprehension evaluates its elements from left
  to right, so the first exception is the one raised.
\<close>

fun sum_results :: "(error + int) list \<Rightarrow> error + int" where
  "sum_results [] = Inr 0"
| "sum_results (r # rs) =
     (case r of
        Inl e \<Rightarrow> Inl e
      | Inr v \<Rightarrow> (case sum_results rs of Inl e \<Rightarrow> Inl e | Inr t \<Rightarrow> Inr (v + t)))"

text \<open>\<^verbatim>\<open>sum([compute_psize(session, l) for l in range(lod)])\<close>.\<close>

definition psize_before :: "session \<Rightarrow> int \<Rightarrow> error + int" where
  "psize_before s lod = sum_results (map (compute_psize s) [0..lod - 1])"

text \<open>
  \<^verbatim>\<open>get_numpoints(session, box, lod, patch_size)\<close>. The list \<open>sent\<close> holds the
  statements sent to the store so far; the call returns it extended by the statement it
  sends, if any. \<^verbatim>\<open>psize is 0\<close> compares with the cached small integer 0 and is the test
  \<open>psize = 0\<close>; \<^verbatim>\<open>session.query(sql)[0][0] or 0\<close> turns \<^verbatim>\<open>NULL\<close> into 0.
\<close>

definition get_numpoints ::
    "session \<Rightarrow> bbox \<Rightarrow> int \<Rightarrow> int \<Rightarrow> range_query list \<Rightarrow> error + (int \<times> range_query list)" where
  "get_numpoints s box lod psz sent =
     (case compute_psize s lod of
        Inl e \<Rightarrow> Inl e
      | Inr psize \<Rightarrow>
          if psize = 0 then Inr (- 1, sent)
          else
            (case psize_before s lod of
               Inl e \<Rightarrow> Inl e
             | Inr used \<Rightarrow>
                 let start = 1 + used;
                     count = min psize (psz - start);
                     sql = \<lparr>q_box = box, q_start = start, q_count = count\<rparr>
                 in (case hierarchy_answer s sql of
                       Inl e \<Rightarrow> Inl e
                     | Inr cell \<Rightarrow>
                         Inr ((case cell of None \<Rightarrow> 0 | Some v \<Rightarrow> v), sent @ [sql]))))"

section \<open>The hierarchy builder\<close>

type_synonym byte = "8 word"

text \<open>
  The dictionary \<^verbatim>\<open>buffer\<close> maps a node address to \<^verbatim>\<open>[bitarray, npoints]\<close>; it is an
  association list with distinct keys in insertion order. The state threaded through
  the recursion is the dictionary together with the statements issued so far.
\<close>

record hstate =
  buffer :: "(string, string \<times> int) alist"
  issued :: "range_query list"

text \<open>\<^verbatim>\<open>int(x)\<close> of a float truncates towards zero.\<close>

definition py_int :: "real \<Rightarrow> int" where
  "py_int x = (if 0 \<le> x then \<lfloor>x\<rfloor> else \<lceil>x\<rceil>)"

text \<open>\<^verbatim>\<open>str(child)\<close> for a child number from 0 to 7.\<close>

definition str_child :: "int \<Rightarrow> string" where
  "str_child child = [''01234567'' ! nat child]"

text \<open>
  \<^verbatim>\<open>int(s, 2)\<close> on a string of the characters 0 and 1; any other character and the empty
  string raise \<^verbatim>\<open>ValueError\<close>.
\<close>

fun parse_bits :: "int \<Rightarrow> string \<Rightarrow> error + int" where
  "parse_bits acc [] = Inr acc"
| "parse_bits acc (c # cs) =
     (if c = CHR ''0'' then parse_bits (2 * acc) cs
      else if c = CHR ''1'' then parse_bits (2 * acc + 1) cs
      else Inl ValueError)"

definition int_base2 :: "string \<Rightarrow> error + int" where
  "int_base2 s = (if s = [] then Inl ValueError else parse_bits 0 s)"

text \<open>
  \<^verbatim>\<open>binchar = Struct('B')\<close> packs an integer from 0 to 255 into one byte,
  \<^verbatim>\<open>binfloat = Struct('I')\<close> packs an integer from 0 to \<open>2 ^ 32 - 1\<close> into four bytes in the
  byte order of the platform (the flag \<open>le\<close>: little endian); both raise
  \<^verbatim>\<open>struct.error\<close> outside their range.
\<close>

definition binchar_pack :: "int \<Rightarrow> error + byte list" where
  "binchar_pack v = (if 0 \<le> v \<and> v \<le> 255 then Inr [word_of_int v] else Inl StructError)"

definition u32_bytes :: "bool \<Rightarrow> int \<Rightarrow> byte list" where
  "u32_bytes le v =
     (let bs = [word_of_int v, word_of_int (v div 256), word_of_int (v div 65536),
                word_of_int (v div 16777216)]
      in if le then bs else rev bs)"

definition binfloat_pack :: "bool \<Rightarrow> int \<Rightarrow> error + byte list" where
  "binfloat_pack le v =
     (if 0 \<le> v \<and> v < 4294967296 then Inr (u32_bytes le v) else Inl StructError)"

text \<open>
  One element of the joined list:
  \<^verbatim>\<open>binchar.pack(int(''.join(buffer[key][0])[::-1], 2)) + binfloat.pack(buffer[key][1])\<close>.
\<close>

definition pack_entry :: "bool \<Rightarrow> string \<times> int \<Rightarrow> error + byte list" where
  "pack_entry le entry =
     (case int_base2 (rev (fst entry)) of
        Inl e \<Rightarrow> Inl e
      | Inr bitmask \<Rightarrow>
          (case binchar_pack bitmask of
             Inl e \<Rightarrow> Inl e
           | Inr b \<Rightarrow>
               (case binfloat_pack le (snd entry) of
                  Inl e \<Rightarrow> Inl e
                | Inr c \<Rightarrow> Inr (b @ c))))"

fun join_results :: "(error + byte list) list \<Rightarrow> error + byte list" where
  "join_results [] = Inr []"
| "join_results (r # rs) =
     (case r of
        Inl e \<Rightarrow> Inl e
      | Inr b \<Rightarrow> (case join_results rs of Inl e \<Rightarrow> Inl e | Inr t \<Rightarrow> Inr (b @ t)))"

text \<open>\<^verbatim>\<open>sorted(buffer.keys(), key=lambda x: (len(x), x))\<close>.\<close>

definition sorted_keys :: "(string, string \<times> int) alist \<Rightarrow> string list" where
  "sorted_keys buf = sort_key (\<lambda>x. (length x, x)) (map fst (DAList.impl_of buf))"

text \<open>
  The block under \<^verbatim>\<open>if not depth\<close>. Its \<^verbatim>\<open>print\<close> loop writes to the console only and
  is left out. Every key comes from the dictionary, so \<^verbatim>\<open>buffer[key]\<close> finds it.
\<close>

definition serialise :: "bool \<Rightarrow> (string, string \<times> int) alist \<Rightarrow> error + byte list" where
  "serialise le buf =
     join_results
       (map (\<lambda>key. case DAList.lookup buf key of
                      None \<Rightarrow> Inr []
                    | Some entry \<Rightarrow> pack_entry le entry)
            (sorted_keys buf))"

text \<open>
  The estimate of the points that a leaf request would return for the node:
  \<^verbatim>\<open>estimate_total\<close>, after \<^verbatim>\<open>npoints\<close> has been clamped at 0.
\<close>

definition estimate_total :: "session \<Rightarrow> int \<Rightarrow> int \<Rightarrow> int \<Rightarrow> int \<Rightarrow> error + real" where
  "estimate_total s psize npoints lod psz =
     (if psize \<noteq> 0 then
        (case psize_before s lod of
           Inl e \<Rightarrow> Inl e
         | Inr used \<Rightarrow>
             let npatches = real_of_int npoints / real_of_int psize;
                 points_used_in_previous_lod = npatches * real_of_int used
             in Inr (npatches * real_of_int psz - points_used_in_previous_lod))
      else Inr (real_of_int NODE_POINT_LIMIT))"

text \<open>
  \<^verbatim>\<open>octree(session, depth, depth_max, box, npoints, lod, patch_size, name, buffer)\<close> and
  the loop \<^verbatim>\<open>for child in range(8)\<close> over the children still to visit. The result of
  \<open>octree\<close> is the state and the value returned: the packed hierarchy at depth 0,
  \<^verbatim>\<open>None\<close> below. The only caller passes depth 0 and \<open>depth_max = 2\<close>; depths are natural
  numbers.
\<close>

function octree ::
    "bool \<Rightarrow> session \<Rightarrow> nat \<Rightarrow> nat \<Rightarrow> bbox \<Rightarrow> int \<Rightarrow> int \<Rightarrow> int \<Rightarrow> string \<Rightarrow> hstate
      \<Rightarrow> error + (hstate \<times> byte list option)"
  and octree_children ::
    "bool \<Rightarrow> session \<Rightarrow> nat \<Rightarrow> nat \<Rightarrow> bbox \<Rightarrow> int \<Rightarrow> int \<Rightarrow> string \<Rightarrow> int list \<Rightarrow> string
      \<Rightarrow> hstate \<Rightarrow> error + (string \<times> hstate)"
where
  "octree le s depth depth_max box npoints lod psz name st =
     (case compute_psize s lod of
        Inl e \<Rightarrow> Inl e
      | Inr psize \<Rightarrow>
          let bitarray = replicate 8 CHR ''0'';
              npoints0 = (if npoints < 0 then 0 else npoints)
          in (case estimate_total s psize npoints0 lod psz of
                Inl e \<Rightarrow> Inl e
              | Inr est \<Rightarrow>
                  (case (if est < real_of_int NODE_POINT_LIMIT then
                           Inr (st\<lparr>buffer := DAList.update name (bitarray, py_int est) (buffer st)\<rparr>)
                         else
                           (case octree_children le s depth depth_max box lod psz name [0..7]
                                   bitarray st of
                              Inl e \<Rightarrow> Inl e
                            | Inr (bits, st1) \<Rightarrow>
                                Inr (st1\<lparr>buffer :=
                                       DAList.update name (bits, npoints0) (buffer st1)\<rparr>))) of
                     Inl e \<Rightarrow> Inl e
                   | Inr st2 \<Rightarrow>
                       if depth = 0 then
                         (case serialise le (buffer st2) of
                            Inl e \<Rightarrow> Inl e
                          | Inr out \<Rightarrow> Inr (st2, Some out))
                       else Inr (st2, None))))"
| "octree_children le s depth depth_max box lod psz name [] bitarray st = Inr (bitarray, st)"
| "octree_children le s depth depth_max box lod psz name (child # rest) bitarray st =
     (case get_child box child of
        Inl e \<Rightarrow> Inl e
      | Inr cbox \<Rightarrow>
          (case get_numpoints s cbox (lod + 1) psz (issued st) of
             Inl e \<Rightarrow> Inl e
           | Inr (cnpoints, issued1) \<Rightarrow>
               if cnpoints \<noteq> 0 then
                 if depth < depth_max then
                   (case octree le s (depth + 1) depth_max cbox cnpoints (lod + 1) psz
                           (name @ str_child child) (st\<lparr>issued := issued1\<rparr>) of
                      Inl e \<Rightarrow> Inl e
                    | Inr (st2, ret) \<Rightarrow>
                        octree_children le s depth depth_max box lod psz name rest
                          (bitarray[nat child := CHR ''1'']) st2)
                 else
                   octree_children le s depth depth_max box lod psz name rest
                     (bitarray[nat child := CHR ''1'']) (st\<lparr>issued := issued1\<rparr>)
               else
                 octree_children le s depth depth_max box lod psz name rest bitarray
                   (st\<lparr>issued := issued1\<rparr>)))"
  by pat_completeness auto

termination
  by (relation "inv_image (less_than <*lex*> less_than)
        (\<lambda>x. case x of
           Inl (le, s, depth, depth_max, rest) \<Rightarrow> (depth_max - depth, 9)
         | Inr (le, s, depth, depth_max, box, lod, psz, name, children, rest) \<Rightarrow>
             (depth_max - depth, length children))")
     (auto simp add: upto.simps)

text \<open>The state of a fresh request: an empty dictionary, nothing issued.\<close>

definition initial_hstate :: hstate where
  "initial_hstate = \<lparr>buffer = DAList.empty, issued = []\<rparr>"




text \<open>
  The end of \<^verbatim>\<open>octree\<close>: the packed hierarchy at depth 0, \<^verbatim>\<open>None\<close> below.
\<close>

definition finish_node :: "bool \<Rightarrow> nat \<Rightarrow> hstate \<Rightarrow> error + (hstate \<times> byte list option)" where
  "finish_node le depth st =
     (if depth = 0 then
        (case serialise le (buffer st) of Inl e \<Rightarrow> Inl e | Inr out \<Rightarrow> Inr (st, Some out))
      else Inr (st, None))"

text \<open>
  A session with thresholds 0 and 0 whose store counts three points in the octant from
  (0,0,5) to (5,5,10) and none elsewhere.
\<close>

definition sample_tree_session :: session where
  "sample_tree_session =
     (empty_session 1000 100 0 0)\<lparr>hierarchy_answer :=
        (\<lambda>q. if q_box q = the_bbox 0 0 5 5 5 10 then Inr (Some 3) else Inr None)\<rparr>"





text \<open>
  The number whose bit \<open>i\<close> is entry \<open>i\<close> of a child array: the array read with child 0 as
  the least significant bit.
\<close>

fun bits_value :: "string \<Rightarrow> int" where
  "bits_value [] = 0"
| "bits_value (c # cs) = (if c = CHR ''1'' then 1 else 0) + 2 * bits_value cs"

text \<open>
  The unsigned integer that four bytes hold in the byte order of the platform.
\<close>

definition u32_of_bytes :: "bool \<Rightarrow> byte list \<Rightarrow> int" where
  "u32_of_bytes le bs = foldr (\<lambda>b acc. uint b + 256 * acc) (if le then bs else rev bs) 0"

section \<open>The tile assembler\<close>

text \<open>
  \<^verbatim>\<open>box_reduced(box, scales, offsets)\<close>: the box in the raw domain of the store. Scales and
  offsets are triples of Python floats; dividing by a zero scale raises
  \<^verbatim>\<open>ZeroDivisionError\<close>.
\<close>

definition box_reduced :: "bbox \<Rightarrow> real \<times> real \<times> real \<Rightarrow> real \<times> real \<times> real \<Rightarrow> error + bbox" where
  "box_reduced box scales offsets =
     (case scales of (s0, s1, s2) \<Rightarrow>
      case offsets of (o0, o1, o2) \<Rightarrow>
        if s0 = 0 \<or> s1 = 0 \<or> s2 = 0 then Inl ZeroDivisionError
        else Inr (the_bbox
               ((xmin box - o0) / s0) ((ymin box - o1) / s1) ((zmin box - o2) / s2)
               ((xmax box - o0) / s0) ((ymax box - o1) / s1) ((zmax box - o2) / s2)))"

text \<open>\<^verbatim>\<open>filter_on_xyz(points, box)\<close>: the boolean mask keeps the rows in their order.\<close>

definition filter_on_xyz :: "pointarray \<Rightarrow> bbox \<Rightarrow> pointarray" where
  "filter_on_xyz points box =
     points\<lparr>rows :=
       filter (\<lambda>p. X p > xmin box \<and> X p < xmax box \<and>
                   Y p > ymin box \<and> Y p < ymax box \<and>
                   Z p > zmin box \<and> Z p < zmax box) (rows points)\<rparr>"

text \<open>
  \<^verbatim>\<open>sql_query(session, box, pcid, lod, isleaf)\<close>: the statement of \<^verbatim>\<open>POINT_QUERY\<close>, whose
  template uses the diagonal of the box, \<^verbatim>\<open>start\<close> and \<^verbatim>\<open>count\<close>.
\<close>

definition sql_query :: "session \<Rightarrow> bbox \<Rightarrow> int \<Rightarrow> bool \<Rightarrow> error + range_query" where
  "sql_query s box lod isleaf =
     (case compute_psize s lod of
        Inl e \<Rightarrow> Inl e
      | Inr psize \<Rightarrow>
          (case psize_before s lod of
             Inl e \<Rightarrow> Inl e
           | Inr used \<Rightarrow>
               let start = 1 + used;
                   count = (if isleaf then patch_size s - start
                            else min psize (patch_size s - start))
               in Inr \<lparr>q_box = box, q_start = start, q_count = count\<rparr>))"

text \<open>
  Modelled from the spec: \<^verbatim>\<open>read_uncompressed_patch\<close> of \<^verbatim>\<open>lopocs/utils.py\<close> is not among
  the sources. The specification says that decoding fails when the store returns no
  points for the query (an empty or null union) and that this failure is the one reported
  as not found; the handler of \<^verbatim>\<open>ItownsRead\<close> catches \<^verbatim>\<open>TypeError\<close>, so that is the
  exception of the failure. Any other blob decodes to the rows it holds.
\<close>

definition read_uncompressed_patch :: "pointarray option \<Rightarrow> error + pointarray" where
  "read_uncompressed_patch pcpatch_wkb =
     (case pcpatch_wkb of
        None \<Rightarrow> Inl TypeError
      | Some points \<Rightarrow> if rows points = [] then Inl TypeError else Inr points)"

type_synonym colour = "byte \<times> byte \<times> byte \<times> byte"

text \<open>
  \<^verbatim>\<open>np.array(np.core.records.fromarrays(columns, dtype=cdt))\<close>: numpy raises
  \<^verbatim>\<open>ValueError\<close> (mismatch between the number of fields and the number of arrays) unless
  there is one column for each of the four fields of \<^verbatim>\<open>cdt\<close>; the values are cast to
  \<^verbatim>\<open>uint8\<close>.
\<close>

definition fromarrays_cdt :: "int list list \<Rightarrow> error + colour list" where
  "fromarrays_cdt columns =
     (case columns of
        [r, g, b, a] \<Rightarrow>
          Inr (map (\<lambda>(r, g, b, a). (word_of_int r, word_of_int g, word_of_int b, word_of_int a))
                 (zip r (zip g (zip b a))))
      | _ \<Rightarrow> Inl ValueError)"

text \<open>
  \<^verbatim>\<open>classification_to_rgb(points)\<close>: the masks of the seven codes exclude each other, so
  the sums are the colour of the code of the point, or black; alpha is 1.
\<close>

definition class_colour :: "int \<Rightarrow> int \<times> int \<times> int" where
  "class_colour c =
     (if c = 6 then (186, 79, 63)
      else if c = 5 then (140, 156, 8)
      else if c = 4 then (171, 200, 116)
      else if c = 3 then (192, 213, 160)
      else if c = 9 then (141, 179, 198)
      else if c = 2 then (226, 230, 229)
      else if c = 1 then (176, 185, 182)
      else (0, 0, 0))"

definition classification_to_rgb :: "point list \<Rightarrow> error + colour list" where
  "classification_to_rgb points =
     fromarrays_cdt
       [map (\<lambda>p. fst (class_colour (Classification p))) points,
        map (\<lambda>p. fst (snd (class_colour (Classification p)))) points,
        map (\<lambda>p. snd (snd (class_colour (Classification p)))) points,
        map (\<lambda>p. 1) points]"

text \<open>
  \<^verbatim>\<open>max\<close>, \<^verbatim>\<open>np.min\<close> and \<^verbatim>\<open>np.max\<close> raise \<^verbatim>\<open>ValueError\<close> on an empty array.
\<close>

definition py_max :: "int list \<Rightarrow> error + int" where
  "py_max xs = (case xs of [] \<Rightarrow> Inl ValueError | x # r \<Rightarrow> Inr (fold max r x))"

definition np_min :: "real list \<Rightarrow> error + real" where
  "np_min xs = (case xs of [] \<Rightarrow> Inl ValueError | x # r \<Rightarrow> Inr (fold min r x))"

definition np_max :: "real list \<Rightarrow> error + real" where
  "np_max xs = (case xs of [] \<Rightarrow> Inl ValueError | x # r \<Rightarrow> Inr (fold max r x))"

text \<open>
  The colour array of \<^verbatim>\<open>get_points\<close>. With colour fields, values above 255 are reduced
  modulo 255 with alpha 255; otherwise the three fields are cast to \<^verbatim>\<open>cdt\<close> by
  \<^verbatim>\<open>astype\<close>, whose result for a source without alpha depends on the numpy version and is
  the parameter \<open>cast\<close>. Without colour fields the classification gives the colour.
  Without either, the branch builds \<^verbatim>\<open>np.zeros((npoints, 3))\<close>, three columns of zeros.
\<close>

definition colours_of ::
    "(point list \<Rightarrow> error + colour list) \<Rightarrow> pointarray \<Rightarrow> error + colour list" where
  "colours_of cast points =
     (if has_rgb points then
        (case py_max (map Red (rows points)) of
           Inl e \<Rightarrow> Inl e
         | Inr m \<Rightarrow>
             if 255 < m then
               fromarrays_cdt
                 [map (\<lambda>p. Red p mod 255) (rows points),
                  map (\<lambda>p. Green p mod 255) (rows points),
                  map (\<lambda>p. Blue p mod 255) (rows points),
                  map (\<lambda>p. 255) (rows points)]
             else cast (rows points))
      else if has_classification points then classification_to_rgb (rows points)
      else fromarrays_cdt (replicate 3 (replicate (length (rows points)) 0)))"

text \<open>
  The tile: the header of six values, the positions in the frame of the node and the
  colours. Their bytes (\<^verbatim>\<open>float32\<close> and \<^verbatim>\<open>uint8\<close> in memory order) are not modelled.
\<close>

record tile =
  header :: "real list"
  positions :: "(real \<times> real \<times> real) list"
  colors :: "colour list"

text \<open>
  \<^verbatim>\<open>get_points(session, box, lod, offsets, pcid, scales, schema, isleaf)\<close>. The permutation
  that \<^verbatim>\<open>np.random.shuffle\<close> draws is the parameter \<open>shuffle\<close>; \<^verbatim>\<open>pcid\<close> and \<^verbatim>\<open>schema\<close>
  only describe the blob to the store and the decoder.
\<close>

definition get_points ::
    "(point list \<Rightarrow> point list) \<Rightarrow> (point list \<Rightarrow> error + colour list) \<Rightarrow> session \<Rightarrow> bbox \<Rightarrow> int
      \<Rightarrow> real \<times> real \<times> real \<Rightarrow> real \<times> real \<times> real \<Rightarrow> bool \<Rightarrow> error + tile" where
  "get_points shuffle cast s box lod offsets scales isleaf =
     (case sql_query s box lod isleaf of
        Inl e \<Rightarrow> Inl e
      | Inr sql \<Rightarrow>
     (case point_answer s sql of
        Inl e \<Rightarrow> Inl e
      | Inr pcpatch_wkb \<Rightarrow>
     (case read_uncompressed_patch pcpatch_wkb of
        Inl e \<Rightarrow> Inl e
      | Inr decoded \<Rightarrow>
     (case box_reduced box scales offsets of
        Inl e \<Rightarrow> Inl e
      | Inr rbox \<Rightarrow>
          let points = filter_on_xyz (decoded\<lparr>rows := shuffle (rows decoded)\<rparr>) rbox
          in
     (case colours_of cast points of
        Inl e \<Rightarrow> Inl e
      | Inr rgb \<Rightarrow>
     (case scales of (s0, s1, s2) \<Rightarrow>
      case offsets of (o0, o1, o2) \<Rightarrow>
        let quantized_points =
              map (\<lambda>p. (X p * s0 + o0 - xmin box, Y p * s1 + o1 - ymin box,
                         Z p * s2 + o2 - zmin box)) (rows points)
        in
     (case np_min (map X (rows points)) of Inl e \<Rightarrow> Inl e | Inr x0 \<Rightarrow>
     (case np_min (map Y (rows points)) of Inl e \<Rightarrow> Inl e | Inr y0 \<Rightarrow>
     (case np_min (map Z (rows points)) of Inl e \<Rightarrow> Inl e | Inr z0 \<Rightarrow>
     (case np_max (map X (rows points)) of Inl e \<Rightarrow> Inl e | Inr x1 \<Rightarrow>
     (case np_max (map Y (rows points)) of Inl e \<Rightarrow> Inl e | Inr y1 \<Rightarrow>
     (case np_max (map Z (rows points)) of Inl e \<Rightarrow> Inl e | Inr z1 \<Rightarrow>
        Inr \<lparr>header =
               [x0 * s0 + o0 - xmin box, y0 * s1 + o1 - ymin box, z0 * s2 + o2 - zmin box,
                x1 * s0 + o0 - xmin box, y1 * s1 + o1 - ymin box, z1 * s2 + o2 - zmin box],
             positions = quantized_points,
             colors = rgb\<rparr>))))))))))))"

section \<open>The tile request\<close>








text \<open>
  A session whose store answers every point statement with the given blob, and a point
  with the given coordinates and classification, its colour fields zero.
\<close>

definition blob_session :: "pointarray option \<Rightarrow> session" where
  "blob_session blob = (empty_session 1000 100 (- 1) (- 1))\<lparr>point_answer := (\<lambda>q. Inr blob)\<rparr>"

definition sample_point :: "real \<Rightarrow> real \<Rightarrow> real \<Rightarrow> int \<Rightarrow> point" where
  "sample_point x y z c = \<lparr>X = x, Y = y, Z = z, Red = 0, Green = 0, Blue = 0, Classification = c\<rparr>"

text \<open>
  A point lies strictly inside a box: on each axis its coordinate is strictly between the
  minimum and the maximum of the box.
\<close>

definition strictly_inside :: "bbox \<Rightarrow> point \<Rightarrow> bool" where
  "strictly_inside b p \<longleftrightarrow>
     xmin b < X p \<and> X p < xmax b \<and> ymin b < Y p \<and> Y p < ymax b \<and> zmin b < Z p \<and> Z p < zmax b"

text \<open>
  The position of a point in the frame of the node, one row of \<^verbatim>\<open>quantized_points_r\<close>.
\<close>

definition local_position ::
    "bbox \<Rightarrow> real \<times> real \<times> real \<Rightarrow> real \<times> real \<times> real \<Rightarrow> point \<Rightarrow> real \<times> real \<times> real" where
  "local_position box offsets scales p =
     (case scales of (s0, s1, s2) \<Rightarrow>
      case offsets of (o0, o1, o2) \<Rightarrow>
        (X p * s0 + o0 - xmin box, Y p * s1 + o1 - ymin box, Z p * s2 + o2 - zmin box))"

text \<open>
  Three sample points without colour fields, with or without a classification.
\<close>

definition sample_array :: "bool \<Rightarrow> pointarray" where
  "sample_array with_class =
     \<lparr>has_rgb = False, has_classification = with_class,
      rows = [sample_point 0 1 (3 / 2) 6, sample_point 2 1 1 2, sample_point 1 1 1 5]\<rparr>"



section \<open>Properties of the octant codec\<close>

lemma octant_cases:
  fixes i :: int
  assumes "0 \<le> i" "i \<le> 7"
  shows "i = 0 \<or> i = 1 \<or> i = 2 \<or> i = 3 \<or> i = 4 \<or> i = 5 \<or> i = 6 \<or> i = 7"
  using assms by arith

lemma get_child_zyx:
  assumes "0 \<le> i" "i \<le> 7"
  shows "get_child parent i = Inr (child_bits_zyx parent i)"
  using octant_cases [OF assms]
  by (elim disjE)
     (simp_all add: get_child_def half_size_def child_bits_zyx_def box_of_halves_def
        select_half_def the_bbox_def)


lemma upto07: "[0..7::int] = [0,1,2,3,4,5,6,7]"
  by (simp add: upto.simps)

lemma vol_child:
  "volume (child_bits_zyx p i) =
     (snd (select_half (odd (i div 4)) (xmin p) (xmax p)) - fst (select_half (odd (i div 4)) (xmin p) (xmax p))) *
     (snd (select_half (odd (i div 2)) (ymin p) (ymax p)) - fst (select_half (odd (i div 2)) (ymin p) (ymax p))) *
     (snd (select_half (odd i) (zmin p) (zmax p)) - fst (select_half (odd i) (zmin p) (zmax p)))"
  by (simp add: volume_def child_bits_zyx_def box_of_halves_def the_bbox_def)

lemma half_width: "snd (select_half h lo hi) - fst (select_half h lo hi) = (hi - lo) / 2"
  by (simp add: select_half_def field_simps)

lemma vol_child_eighth: "volume (child_bits_zyx p i) = volume p / 8"
  unfolding vol_child half_width by (simp add: volume_def)

lemma vol_sum: "sum_list (map (\<lambda>i. volume (child_bits_zyx parent i)) [0..7]) = volume parent"
  by (simp add: upto07 vol_child_eighth)

lemma bits_differ:
  fixes i j :: int
  assumes "0 \<le> i" "i \<le> 7" "0 \<le> j" "j \<le> 7" "i \<noteq> j"
  shows "odd i \<noteq> odd j \<or> odd (i div 2) \<noteq> odd (j div 2) \<or> odd (i div 4) \<noteq> odd (j div 4)"
proof -
  have "i = 0 \<or> i = 1 \<or> i = 2 \<or> i = 3 \<or> i = 4 \<or> i = 5 \<or> i = 6 \<or> i = 7"
    by (rule octant_cases [OF assms(1,2)])
  moreover have "j = 0 \<or> j = 1 \<or> j = 2 \<or> j = 3 \<or> j = 4 \<or> j = 5 \<or> j = 6 \<or> j = 7"
    by (rule octant_cases [OF assms(3,4)])
  ultimately show ?thesis using assms(5) by (elim disjE) simp_all
qed

lemma halves_disjoint:
  assumes "h1 \<noteq> h2"
  shows "\<not> (fst (select_half h1 lo hi) < x \<and> x < snd (select_half h1 lo hi) \<and>
            fst (select_half h2 lo hi) < x \<and> x < snd (select_half h2 lo hi))"
  using assms by (cases h1; cases h2) (auto simp: select_half_def)

lemma interior_child:
  "interior_pt (child_bits_zyx p i) (x, y, z) \<longleftrightarrow>
     (fst (select_half (odd (i div 4)) (xmin p) (xmax p)) < x \<and> x < snd (select_half (odd (i div 4)) (xmin p) (xmax p))) \<and>
     (fst (select_half (odd (i div 2)) (ymin p) (ymax p)) < y \<and> y < snd (select_half (odd (i div 2)) (ymin p) (ymax p))) \<and>
     (fst (select_half (odd i) (zmin p) (zmax p)) < z \<and> z < snd (select_half (odd i) (zmin p) (zmax p)))"
  by (auto simp add: interior_pt_def child_bits_zyx_def box_of_halves_def the_bbox_def)

lemma disjoint_children:
  assumes "0 \<le> i" "i \<le> 7" "0 \<le> j" "j \<le> 7" "i \<noteq> j"
  shows "\<not> (interior_pt (child_bits_zyx parent i) pt \<and> interior_pt (child_bits_zyx parent j) pt)"
proof (cases pt)
  case (fields x y z)
  from bits_differ [OF assms] show ?thesis
    unfolding fields interior_child
    using halves_disjoint [of "odd i" "odd j" "zmin parent" "zmax parent" z]
          halves_disjoint [of "odd (i div 2)" "odd (j div 2)" "ymin parent" "ymax parent" y]
          halves_disjoint [of "odd (i div 4)" "odd (j div 4)" "xmin parent" "xmax parent" x]
    by blast
qed

lemma halves_cover:
  assumes "lo \<le> x" "x \<le> hi"
  shows "\<exists>h. fst (select_half h lo hi) \<le> x \<and> x \<le> snd (select_half h lo hi)"
proof (cases "x \<le> lo + (hi - lo) / 2")
  case True
  then have "fst (select_half False lo hi) \<le> x \<and> x \<le> snd (select_half False lo hi)"
    using assms by (simp add: select_half_def)
  then show ?thesis ..
next
  case False
  then have "fst (select_half True lo hi) \<le> x \<and> x \<le> snd (select_half True lo hi)"
    using assms by (simp add: select_half_def)
  then show ?thesis ..
qed

lemma index_of_bits:
  "\<exists>i::int. 0 \<le> i \<and> i \<le> 7 \<and> odd (i div 4) = a \<and> odd (i div 2) = b \<and> odd i = c"
proof -
  let ?i = "(if a then 4 else 0) + (if b then 2 else 0) + (if c then 1 else 0) :: int"
  have "0 \<le> ?i \<and> ?i \<le> 7 \<and> odd (?i div 4) = a \<and> odd (?i div 2) = b \<and> odd ?i = c"
    by (cases a; cases b; cases c) simp_all
  then show ?thesis by blast
qed

lemma closed_child:
  "closed_pt (child_bits_zyx p i) (x, y, z) \<longleftrightarrow>
     (fst (select_half (odd (i div 4)) (xmin p) (xmax p)) \<le> x \<and> x \<le> snd (select_half (odd (i div 4)) (xmin p) (xmax p))) \<and>
     (fst (select_half (odd (i div 2)) (ymin p) (ymax p)) \<le> y \<and> y \<le> snd (select_half (odd (i div 2)) (ymin p) (ymax p))) \<and>
     (fst (select_half (odd i) (zmin p) (zmax p)) \<le> z \<and> z \<le> snd (select_half (odd i) (zmin p) (zmax p)))"
  by (auto simp add: closed_pt_def child_bits_zyx_def box_of_halves_def the_bbox_def)

lemma children_cover:
  assumes "closed_pt parent pt"
  shows "\<exists>i::int. 0 \<le> i \<and> i \<le> 7 \<and> closed_pt (child_bits_zyx parent i) pt"
proof (cases pt)
  case (fields x y z)
  from assms have b: "xmin parent \<le> x" "x \<le> xmax parent" "ymin parent \<le> y" "y \<le> ymax parent"
      "zmin parent \<le> z" "z \<le> zmax parent"
    by (simp_all add: fields closed_pt_def)
  obtain a where a: "fst (select_half a (xmin parent) (xmax parent)) \<le> x"
      "x \<le> snd (select_half a (xmin parent) (xmax parent))"
    using halves_cover [OF b(1,2)] by blast
  obtain b' where b': "fst (select_half b' (ymin parent) (ymax parent)) \<le> y"
      "y \<le> snd (select_half b' (ymin parent) (ymax parent))"
    using halves_cover [OF b(3,4)] by blast
  obtain c where c: "fst (select_half c (zmin parent) (zmax parent)) \<le> z"
      "z \<le> snd (select_half c (zmin parent) (zmax parent))"
    using halves_cover [OF b(5,6)] by blast
  obtain i :: int where i: "0 \<le> i" "i \<le> 7" "odd (i div 4) = a" "odd (i div 2) = b'" "odd i = c"
    using index_of_bits [of a b' c] by blast
  have "closed_pt (child_bits_zyx parent i) (x, y, z)"
    unfolding closed_child i(3-5) using a b' c by simp
  with i(1,2) show ?thesis unfolding fields by blast
qed

lemma half_inside:
  assumes "lo \<le> hi"
  shows "lo \<le> fst (select_half h lo hi) \<and> fst (select_half h lo hi) \<le> snd (select_half h lo hi)
         \<and> snd (select_half h lo hi) \<le> hi"
  using assms by (cases h) (simp_all add: select_half_def field_simps)

lemma child_valid_inside:
  assumes "valid_bbox parent"
  shows "valid_bbox (child_bits_zyx parent i) \<and> inside_box (child_bits_zyx parent i) parent"
  using assms
    half_inside [of "xmin parent" "xmax parent" "odd (i div 4)"]
    half_inside [of "ymin parent" "ymax parent" "odd (i div 2)"]
    half_inside [of "zmin parent" "zmax parent" "odd i"]
  by (simp add: valid_bbox_def inside_box_def child_bits_zyx_def box_of_halves_def the_bbox_def)

lemma nth_octants: "k < 8 \<Longrightarrow> [0..7::int] ! k = int k"
  using nth_upto [of 0 k 7] by simp

text \<open>
  Claim C5. For every valid parent box the eight boxes \<open>get_child parent 0 .. 7\<close> exist,
  their volumes add up to the volume of the parent, no point lies in the interior of two
  different children, every point of the closed parent lies in some closed child, and
  every child is a valid box within the parent.
\<close>

theorem children_partition_parent:
  assumes "valid_bbox parent"
  shows "\<exists>cs. map (get_child parent) [0..7] = map Inr cs
           \<and> sum_list (map volume cs) = volume parent
           \<and> (\<forall>i<8. \<forall>j<8. i \<noteq> j \<longrightarrow>
                  (\<forall>pt. \<not> (interior_pt (cs ! i) pt \<and> interior_pt (cs ! j) pt)))
           \<and> (\<forall>pt. closed_pt parent pt \<longrightarrow> (\<exists>i<8. closed_pt (cs ! i) pt))
           \<and> (\<forall>i<8. valid_bbox (cs ! i) \<and> inside_box (cs ! i) parent)"
proof -
  let ?cs = "map (child_bits_zyx parent) [0..7]"
  have nth: "?cs ! k = child_bits_zyx parent (int k)" if "k < 8" for k
    using that by (simp add: nth_octants)
  have 1: "map (get_child parent) [0..7] = map Inr ?cs"
    by (simp add: get_child_zyx)
  have 2: "sum_list (map volume ?cs) = volume parent"
    by (simp add: upto07 vol_child_eighth)
  have 3: "\<forall>i<8. \<forall>j<8. i \<noteq> j \<longrightarrow>
             (\<forall>pt. \<not> (interior_pt (?cs ! i) pt \<and> interior_pt (?cs ! j) pt))"
  proof (intro allI impI)
    fix i j :: nat and pt
    assume "i < 8" "j < 8" "i \<noteq> j"
    then show "\<not> (interior_pt (?cs ! i) pt \<and> interior_pt (?cs ! j) pt)"
      using disjoint_children [of "int i" "int j" parent pt] by (simp add: nth)
  qed
  have 4: "\<forall>pt. closed_pt parent pt \<longrightarrow> (\<exists>i<8. closed_pt (?cs ! i) pt)"
  proof (intro allI impI)
    fix pt assume "closed_pt parent pt"
    then obtain i :: int where i: "0 \<le> i" "i \<le> 7" "closed_pt (child_bits_zyx parent i) pt"
      using children_cover by blast
    then have "nat i < 8" "closed_pt (?cs ! nat i) pt"
      by (simp_all add: nth)
    then show "\<exists>i<8. closed_pt (?cs ! i) pt" by blast
  qed
  have 5: "\<forall>i<8. valid_bbox (?cs ! i) \<and> inside_box (?cs ! i) parent"
    using child_valid_inside [OF assms] by (simp add: nth)
  from 1 2 3 4 5 show ?thesis by blast
qed

theorem children_partition_parent_witness:
  "valid_bbox (the_bbox 0 0 0 10 10 10) \<and>
   (\<exists>cs. map (get_child (the_bbox 0 0 0 10 10 10)) [0..7] = map Inr cs
           \<and> sum_list (map volume cs) = volume (the_bbox 0 0 0 10 10 10)
           \<and> (\<forall>i<8. \<forall>j<8. i \<noteq> j \<longrightarrow>
                  (\<forall>pt. \<not> (interior_pt (cs ! i) pt \<and> interior_pt (cs ! j) pt)))
           \<and> (\<forall>pt. closed_pt (the_bbox 0 0 0 10 10 10) pt \<longrightarrow> (\<exists>i<8. closed_pt (cs ! i) pt))
           \<and> (\<forall>i<8. valid_bbox (cs ! i) \<and> inside_box (cs ! i) (the_bbox 0 0 0 10 10 10)))"
proof -
  have v: "valid_bbox (the_bbox 0 0 0 10 10 10)"
    by (simp add: valid_bbox_def the_bbox_def)
  from v children_partition_parent [OF v] show ?thesis by blast
qed

text \<open>
  Claim C1, as amended. For every valid parent box and every index from 0 to 7,
  \<open>get_child\<close> returns the box whose X half is selected by bit 2 (value 4), whose Y half
  by bit 1 (value 2) and whose Z half by bit 0 (value 1) of the index; the child is a valid
  box, octant 0 is the all-low corner and octant 7 the all-high corner.
\<close>

theorem get_child_bit_mapping:
  assumes "valid_bbox parent" "0 \<le> i" "i \<le> 7"
  shows "get_child parent i = Inr (child_bits_zyx parent i)
         \<and> valid_bbox (child_bits_zyx parent i)
         \<and> child_bits_zyx parent 0 =
             the_bbox (xmin parent) (ymin parent) (zmin parent)
               (xmin parent + (xmax parent - xmin parent) / 2)
               (ymin parent + (ymax parent - ymin parent) / 2)
               (zmin parent + (zmax parent - zmin parent) / 2)
         \<and> child_bits_zyx parent 7 =
             the_bbox (xmin parent + (xmax parent - xmin parent) / 2)
               (ymin parent + (ymax parent - ymin parent) / 2)
               (zmin parent + (zmax parent - zmin parent) / 2)
               (xmax parent) (ymax parent) (zmax parent)"
  using get_child_zyx [OF assms(2,3)] child_valid_inside [OF assms(1)]
  by (simp add: child_bits_zyx_def box_of_halves_def select_half_def)

text \<open>
  Claim C1 as the specification states it (bit 0 selects the X half, bit 2 the Z half)
  fails at index 1 of the box from (0,0,0) to (10,10,10): the code returns the low-X,
  high-Z octant, the stated mapping gives the high-X, low-Z octant.
\<close>

theorem get_child_spec_mapping_counterexample:
  "get_child (the_bbox 0 0 0 10 10 10) 1 = Inr (the_bbox 0 0 5 5 5 10) \<and>
   child_spec_xyz (the_bbox 0 0 0 10 10 10) 1 = the_bbox 5 0 0 10 5 5 \<and>
   get_child (the_bbox 0 0 0 10 10 10) 1 \<noteq> Inr (child_spec_xyz (the_bbox 0 0 0 10 10 10) 1)"
  by (simp add: get_child_def half_size_def child_spec_xyz_def box_of_halves_def
      select_half_def the_bbox_def)

theorem get_child_bit_mapping_witness:
  "valid_bbox (the_bbox 0 0 0 10 10 10) \<and> (0::int) \<le> 5 \<and> (5::int) \<le> 7 \<and>
   get_child (the_bbox 0 0 0 10 10 10) 5 = Inr (the_bbox 5 0 5 10 5 10)"
proof -
  have v: "valid_bbox (the_bbox 0 0 0 10 10 10)"
    by (simp add: valid_bbox_def the_bbox_def)
  have "get_child (the_bbox 0 0 0 10 10 10) 5 = Inr (child_bits_zyx (the_bbox 0 0 0 10 10 10) 5)"
    using get_child_bit_mapping [OF v, of 5] by simp
  then show ?thesis using v
    by (simp add: child_bits_zyx_def box_of_halves_def select_half_def the_bbox_def)
qed

section \<open>Properties of the point budget\<close>


lemma py_round_bounds: "\<lfloor>x\<rfloor> \<le> py_round x \<and> py_round x \<le> \<lfloor>x\<rfloor> + 1"
  by (simp add: py_round_def Let_def)

lemma py_round_mono:
  assumes "x \<le> y"
  shows "py_round x \<le> py_round y"
proof (cases "\<lfloor>x\<rfloor> < \<lfloor>y\<rfloor>")
  case True
  then show ?thesis using py_round_bounds [of x] py_round_bounds [of y] by linarith
next
  case False
  then have eq: "\<lfloor>x\<rfloor> = \<lfloor>y\<rfloor>" using floor_mono [OF assms] by linarith
  have "x - of_int \<lfloor>y\<rfloor> \<le> y - of_int \<lfloor>y\<rfloor>" using assms by simp
  then show ?thesis unfolding py_round_def Let_def eq by auto
qed

lemma py_round_nonneg:
  assumes "0 \<le> x"
  shows "0 \<le> py_round x"
proof -
  have "0 \<le> \<lfloor>x\<rfloor>" using assms by simp
  then show ?thesis using py_round_bounds [of x] by linarith
qed

lemma round_log_mono:
  fixes c :: real
  assumes "60000 \<le> c"
  shows "py_round (log 8 (c / 60000)) \<le> py_round (log 8 (c / 20000))"
proof -
  have "c / 60000 \<le> c / 20000" using assms by (simp add: field_simps)
  moreover have "0 < c / 60000" using assms by simp
  ultimately have "log 8 (c / 60000) \<le> log 8 (c / 20000)"
    by (simp add: log_le_cancel_iff del: log_divide)
  then show ?thesis by (rule py_round_mono)
qed

lemma round_log_nonneg:
  fixes c :: real
  assumes "20000 \<le> c"
  shows "0 \<le> py_round (log 8 (c / 20000))"
proof -
  have "1 \<le> c / 20000" using assms by simp
  then have "0 \<le> log 8 (c / 20000)" by (simp add: zero_le_log_cancel_iff del: log_divide)
  then show ?thesis by (rule py_round_nonneg)
qed

text \<open>
  Claim C10. Whenever the patch count \<open>nbpoints / patch_size\<close> is positive, the session
  preparation succeeds and the thresholds it stores satisfy
  \<open>psize_threshold1 \<le> psize_threshold2\<close>: the skip limit 60000 exceeds the node limit
  20000, and rounding the logarithm to base 8 is monotone.
\<close>

theorem thresholds_ordered:
  assumes "0 < real_of_int (nbpoints s) / real_of_int (patch_size s)"
  shows "\<exists>s'. prepare_session_lod_threshold s = Inr s'
              \<and> psize_threshold1 s' \<le> psize_threshold2 s'"
proof -
  let ?c = "real_of_int (nbpoints s) / real_of_int (patch_size s)"
  have nz: "patch_size s \<noteq> 0" using assms by auto
  consider "?c < 20000" | "20000 \<le> ?c" "?c < 60000" | "60000 \<le> ?c" by linarith
  then show ?thesis
  proof cases
    case 1
    then show ?thesis using nz
      by (simp add: prepare_session_lod_threshold_def SKIP_LOD_POINT_LIMIT_def
          NODE_POINT_LIMIT_def Let_def)
  next
    case 2
    then show ?thesis using nz round_log_nonneg [of ?c]
      by (simp add: prepare_session_lod_threshold_def SKIP_LOD_POINT_LIMIT_def
          NODE_POINT_LIMIT_def Let_def del: log_divide)
  next
    case 3
    then show ?thesis using nz round_log_mono [of ?c]
      by (simp add: prepare_session_lod_threshold_def SKIP_LOD_POINT_LIMIT_def
          NODE_POINT_LIMIT_def Let_def del: log_divide)
  qed
qed

theorem thresholds_ordered_witness:
  "0 < real_of_int (nbpoints (empty_session 12000000 100 0 0))
         / real_of_int (patch_size (empty_session 12000000 100 0 0)) \<and>
   (\<exists>s'. prepare_session_lod_threshold (empty_session 12000000 100 0 0) = Inr s'
              \<and> psize_threshold1 s' \<le> psize_threshold2 s')"
proof -
  have h: "0 < real_of_int (nbpoints (empty_session 12000000 100 0 0))
         / real_of_int (patch_size (empty_session 12000000 100 0 0))"
    by (simp add: empty_session_def)
  from h thresholds_ordered [OF h] show ?thesis by blast
qed

text \<open>
  Claim C4, as amended. For all thresholds and every \<open>lod \<ge> 0\<close>, \<open>compute_psize\<close>
  returns 0 when \<open>lod \<le> threshold1\<close>, 1 when \<open>threshold1 < lod \<le> threshold2\<close>, and
  otherwise 8 to the power \<open>lod - (threshold2 + 1 if threshold2 \<ge> 0 else 0)\<close> as long as
  that exponent is at most 341; for a larger exponent it raises \<open>OverflowError\<close>. With
  both thresholds \<open>-1\<close> the budgets of levels 0, 1, 2 are 1, 8, 64 (the witness).
\<close>

theorem compute_psize_regimes:
  assumes "0 \<le> lod"
  shows "(lod \<le> psize_threshold1 s \<longrightarrow> compute_psize s lod = Inr 0)
       \<and> (psize_threshold1 s < lod \<and> lod \<le> psize_threshold2 s \<longrightarrow> compute_psize s lod = Inr 1)
       \<and> (psize_threshold1 s < lod \<and> psize_threshold2 s < lod
            \<and> lod - (if 0 \<le> psize_threshold2 s then psize_threshold2 s + 1 else 0) \<le> 341 \<longrightarrow>
          compute_psize s lod =
            Inr (8 ^ nat (lod - (if 0 \<le> psize_threshold2 s then psize_threshold2 s + 1 else 0))))
       \<and> (psize_threshold1 s < lod \<and> psize_threshold2 s < lod
            \<and> 341 < lod - (if 0 \<le> psize_threshold2 s then psize_threshold2 s + 1 else 0) \<longrightarrow>
          compute_psize s lod = Inl OverflowError)"
  using assms by (auto simp add: compute_psize_def int_pow8_def)

theorem compute_psize_regimes_witness:
  "(0::int) \<le> 0 \<and> (0::int) \<le> 1 \<and> (0::int) \<le> 2
   \<and> compute_psize (empty_session 100 10 (- 1) (- 1)) 0 = Inr 1
   \<and> compute_psize (empty_session 100 10 (- 1) (- 1)) 1 = Inr 8
   \<and> compute_psize (empty_session 100 10 (- 1) (- 1)) 2 = Inr 64"
  using compute_psize_regimes [of 0 "empty_session 100 10 (- 1) (- 1)"]
        compute_psize_regimes [of 1 "empty_session 100 10 (- 1) (- 1)"]
        compute_psize_regimes [of 2 "empty_session 100 10 (- 1) (- 1)"]
  by (simp add: empty_session_def)

text \<open>
  Claim C4 as the specification states it, for every \<open>lod \<ge> 0\<close>, fails at level 342
  with both thresholds \<open>-1\<close>: the float power overflows and no budget is returned.
\<close>

theorem compute_psize_overflow_counterexample:
  "compute_psize (empty_session 100 10 (- 1) (- 1)) 342 = Inl OverflowError \<and>
   compute_psize (empty_session 100 10 (- 1) (- 1)) 342 \<noteq> Inr (psize_spec (- 1) (- 1) 342)"
  by (simp add: compute_psize_def int_pow8_def empty_session_def)

section \<open>Properties of the point estimator\<close>


lemma sum_results_map:
  assumes "\<forall>x\<in>set xs. f x = Inr (g x)"
  shows "sum_results (map f xs) = Inr (sum_list (map g xs))"
  using assms by (induction xs) simp_all

lemma psize_before_sum:
  assumes "\<forall>l. 0 \<le> l \<and> l < lod \<longrightarrow> compute_psize s l = Inr (ps l)"
  shows "psize_before s lod = Inr (\<Sum>l = 0..lod - 1. ps l)"
proof -
  have "\<forall>l\<in>set [0..lod - 1]. compute_psize s l = Inr (ps l)"
    using assms by simp
  then have "psize_before s lod = Inr (sum_list (map ps [0..lod - 1]))"
    unfolding psize_before_def by (rule sum_results_map)
  also have "sum_list (map ps [0..lod - 1]) = (\<Sum>l = 0..lod - 1. ps l)"
    using sum_set_upto_conv_sum_list_int [of ps 0 "lod - 1"] by simp
  finally show ?thesis .
qed

lemma compute_psize_spec:
  assumes "0 \<le> l" "l - (if 0 \<le> psize_threshold2 s then psize_threshold2 s + 1 else 0) \<le> 341"
  shows "compute_psize s l = Inr (psize_spec (psize_threshold1 s) (psize_threshold2 s) l)"
  using assms by (auto simp add: compute_psize_def int_pow8_def psize_spec_def)

text \<open>
  Claim C6, as amended. For a node at depth \<open>lod \<ge> 0\<close> whose budgets \<open>ps l\<close> of the levels
  0 to \<open>lod\<close> are defined, that is, for which \<^verbatim>\<open>compute_psize\<close> raises no \<open>OverflowError\<close>:
  if \<open>ps lod = 0\<close> the estimator returns the sentinel \<open>-1\<close> and sends nothing to the store;
  otherwise it sends exactly one statement, restricted to the box of the node, with
  \<open>start = 1 + (\<Sum>l = 0..lod - 1. ps l)\<close> and \<open>count = min (ps lod) (patch_size - start)\<close>,
  and returns the sum the store answers, or 0 when the answer is \<open>NULL\<close>; a failure of the
  store is raised.
\<close>

theorem get_numpoints_contract:
  assumes "0 \<le> lod"
    and "\<forall>l. 0 \<le> l \<and> l \<le> lod \<longrightarrow> compute_psize s l = Inr (ps l)"
  shows "(ps lod = 0 \<longrightarrow> get_numpoints s box lod psz sent = Inr (- 1, sent))
       \<and> (ps lod \<noteq> 0 \<longrightarrow>
            get_numpoints s box lod psz sent =
              (let start = 1 + (\<Sum>l = 0..lod - 1. ps l);
                   sql = \<lparr>q_box = box, q_start = start, q_count = min (ps lod) (psz - start)\<rparr>
               in case hierarchy_answer s sql of
                    Inl e \<Rightarrow> Inl e
                  | Inr None \<Rightarrow> Inr (0, sent @ [sql])
                  | Inr (Some v) \<Rightarrow> Inr (v, sent @ [sql])))"
proof -
  have cur: "compute_psize s lod = Inr (ps lod)"
    using assms by simp
  have "\<forall>l. 0 \<le> l \<and> l < lod \<longrightarrow> compute_psize s l = Inr (ps l)"
    using assms(2) by simp
  then have before: "psize_before s lod = Inr (\<Sum>l = 0..lod - 1. ps l)"
    by (rule psize_before_sum)
  show ?thesis
    by (simp add: get_numpoints_def cur before Let_def split: sum.split option.split)
qed

lemma sample_budgets:
  "\<forall>l. 0 \<le> l \<and> l \<le> 1 \<longrightarrow>
     compute_psize ((empty_session 1000 100 (- 1) (- 1))\<lparr>hierarchy_answer := \<lambda>q. Inr (Some 5)\<rparr>) l
       = Inr (psize_spec (- 1) (- 1) l)"
  using compute_psize_spec
    [of _ "(empty_session 1000 100 (- 1) (- 1))\<lparr>hierarchy_answer := \<lambda>q. Inr (Some 5)\<rparr>"]
  by (simp add: empty_session_def)

theorem get_numpoints_contract_witness:
  "(0::int) \<le> 1
   \<and> compute_psize ((empty_session 1000 100 (- 1) (- 1))\<lparr>hierarchy_answer := \<lambda>q. Inr (Some 5)\<rparr>) 0
       = Inr 1
   \<and> compute_psize ((empty_session 1000 100 (- 1) (- 1))\<lparr>hierarchy_answer := \<lambda>q. Inr (Some 5)\<rparr>) 1
       = Inr 8
   \<and> get_numpoints ((empty_session 1000 100 (- 1) (- 1))\<lparr>hierarchy_answer := \<lambda>q. Inr (Some 5)\<rparr>)
        (the_bbox 0 0 0 10 10 10) 1 100 []
       = Inr (5, [\<lparr>q_box = the_bbox 0 0 0 10 10 10, q_start = 2, q_count = 8\<rparr>])"
proof -
  have "psize_spec (- 1) (- 1) 1 = 8" "psize_spec (- 1) (- 1) 0 = 1"
    by (simp_all add: psize_spec_def)
  then show ?thesis
    using sample_budgets
      get_numpoints_contract [OF _ sample_budgets, of "the_bbox 0 0 0 10 10 10" 100 "[]"]
    by (simp add: empty_session_def Let_def)
qed

text \<open>
  Claim C6 as the specification states it, for every node at depth \<open>lod\<close>, fails at level
  342 with both thresholds \<open>-1\<close>: the budget of the level overflows, so the estimator
  raises \<open>OverflowError\<close>; it neither returns the sentinel nor sends a statement and
  returns a count.
\<close>

theorem get_numpoints_overflow_counterexample:
  "compute_psize (empty_session 1000 100 (- 1) (- 1)) 342 = Inl OverflowError
   \<and> get_numpoints (empty_session 1000 100 (- 1) (- 1)) (the_bbox 0 0 0 10 10 10) 342 100 []
       = Inl OverflowError
   \<and> (\<nexists>r. get_numpoints (empty_session 1000 100 (- 1) (- 1)) (the_bbox 0 0 0 10 10 10) 342 100 []
            = Inr r)"
  by (simp add: get_numpoints_def compute_psize_def int_pow8_def empty_session_def)

section \<open>Properties of the hierarchy builder\<close>



lemma get_child_range:
  assumes "get_child box child = Inr cbox"
  shows "0 \<le> child \<and> child \<le> 7"
  using assms by (auto simp add: get_child_def split: prod.splits if_splits)











lemma replicate8: "replicate 8 c = [c, c, c, c, c, c, c, c]"
  by (simp add: eval_nat_numeral)

lemma sample_serialise:
  "serialise False (DAList.update [] (''01000000'', 7)
      (DAList.update ''1'' (''00000000'', 300) DAList.empty))
   = Inr [2, 0, 0, 0, 7, 0, 0, 0, 1, 44]"
  by (simp add: serialise_def sorted_keys_def DAList.update.rep_eq DAList.empty.rep_eq
      DAList.lookup.rep_eq pack_entry_def int_base2_def binchar_pack_def binfloat_pack_def
      u32_bytes_def less_eq_prod_def)

lemma sample_run:
  "\<exists>st. octree False sample_tree_session 0 2 (the_bbox 0 0 0 10 10 10) 7 0 100 [] initial_hstate
          = Inr (st, Some [2, 0, 0, 0, 7, 0, 0, 0, 1, 44])
       \<and> buffer st = DAList.update [] (''01000000'', 7)
                        (DAList.update ''1'' (''00000000'', 300) DAList.empty)
       \<and> length (issued st) = 8"
  by (simp add: upto.simps get_child_def half_size_def the_bbox_def get_numpoints_def
     compute_psize_def int_pow8_def psize_before_def sample_tree_session_def empty_session_def
     estimate_total_def NODE_POINT_LIMIT_def py_int_def initial_hstate_def Let_def str_child_def
     replicate8 sample_serialise)








lemma octree_unfold:
  "octree le s depth dm box npoints lod psz name st =
     (case compute_psize s lod of
        Inl e \<Rightarrow> Inl e
      | Inr psize \<Rightarrow>
          (case estimate_total s psize (if npoints < 0 then 0 else npoints) lod psz of
             Inl e \<Rightarrow> Inl e
           | Inr est \<Rightarrow>
               if est < 20000 then
                 finish_node le depth
                   (st\<lparr>buffer := DAList.update name (replicate 8 CHR ''0'', py_int est) (buffer st)\<rparr>)
               else
                 (case octree_children le s depth dm box lod psz name [0..7]
                         (replicate 8 CHR ''0'') st of
                    Inl e \<Rightarrow> Inl e
                  | Inr (bits, st1) \<Rightarrow>
                      finish_node le depth
                        (st1\<lparr>buffer := DAList.update name (bits, if npoints < 0 then 0 else npoints)
                                (buffer st1)\<rparr>))))"
  by (simp add: finish_node_def NODE_POINT_LIMIT_def Let_def
      del: replicate.simps upto.simps split: sum.split prod.split)














section \<open>Properties of the packed hierarchy\<close>

lemma parse_bits_snoc:
  "parse_bits acc (xs @ [c]) =
     (case parse_bits acc xs of
        Inl e \<Rightarrow> Inl e
      | Inr v \<Rightarrow> if c = CHR ''0'' then Inr (2 * v) else if c = CHR ''1'' then Inr (2 * v + 1)
                 else Inl ValueError)"
  by (induction xs arbitrary: acc) simp_all

lemma parse_bits_rev:
  assumes "parse_bits 0 (rev bits) = Inr v"
  shows "v = bits_value bits"
  using assms
proof (induction bits arbitrary: v)
  case Nil
  then show ?case by simp
next
  case (Cons c cs)
  then show ?case
    by (auto simp add: parse_bits_snoc split: sum.splits if_splits)
qed

lemma int_base2_rev:
  assumes "int_base2 (rev bits) = Inr v"
  shows "v = bits_value bits"
  using assms parse_bits_rev by (auto simp add: int_base2_def split: if_splits)

lemma bit_bits_value:
  "bit (bits_value bits) i \<longleftrightarrow> i < length bits \<and> bits ! i = CHR ''1''"
proof (induction bits arbitrary: i)
  case Nil
  then show ?case by simp
next
  case (Cons c cs)
  show ?case
  proof (cases i)
    case 0
    then show ?thesis by (simp add: bit_0)
  next
    case (Suc j)
    have "(bits_value (c # cs)) div 2 = bits_value cs"
      by simp
    then show ?thesis using Cons.IH [of j] Suc by (simp add: bit_Suc del: bits_value.simps)
  qed
qed

lemma binchar_pack_bits:
  assumes "binchar_pack (bits_value bits) = Inr bs"
  shows "\<exists>b. bs = [b] \<and> (\<forall>i<8. bit b i \<longleftrightarrow> i < length bits \<and> bits ! i = CHR ''1'')"
proof -
  from assms have bs: "bs = [word_of_int (bits_value bits)]"
    by (auto simp add: binchar_pack_def split: if_splits)
  have "bit (word_of_int (bits_value bits) :: byte) i \<longleftrightarrow> i < length bits \<and> bits ! i = CHR ''1''"
    if "i < 8" for i
    using that by (simp add: bit_word_of_int_iff bit_bits_value)
  with bs show ?thesis by blast
qed

lemma byte_of_int: "uint (word_of_int x :: byte) = x mod 256"
  by (simp add: uint_word_of_int)

lemma u32_split:
  fixes v :: int
  assumes "0 \<le> v" "v < 4294967296"
  shows "v mod 256 + 256 * ((v div 256) mod 256 + 256 * ((v div 65536) mod 256
          + 256 * ((v div 16777216) mod 256))) = v"
proof -
  have q2: "v div 65536 = (v div 256) div 256"
    using zdiv_zmult2_eq [of 256 v 256] by simp
  have q3: "v div 16777216 = (v div 65536) div 256"
    using zdiv_zmult2_eq [of 256 v 65536] by simp
  have "v div 16777216 < 256" "0 \<le> v div 16777216"
    using assms by simp_all
  then have top: "(v div 16777216) mod 256 = v div 16777216"
    by simp
  have e0: "v mod 256 + 256 * (v div 256) = v"
    by simp
  have e1: "(v div 256) mod 256 + 256 * (v div 65536) = v div 256"
    unfolding q2 by simp
  have e2: "(v div 65536) mod 256 + 256 * (v div 16777216) = v div 65536"
    unfolding q3 by simp
  show ?thesis
    by (simp only: top e2 e1 e0)
qed

lemma foldr4:
  "foldr (\<lambda>b acc. uint b + 256 * acc) [a, b, c, d :: byte] 0
     = uint a + 256 * (uint b + 256 * (uint c + 256 * uint d))"
  by simp

lemma u32_roundtrip:
  assumes "0 \<le> v" "v < 4294967296"
  shows "u32_of_bytes le (u32_bytes le v) = v \<and> length (u32_bytes le v) = 4"
proof -
  have len: "length (u32_bytes le v) = 4"
    by (simp add: u32_bytes_def Let_def)
  have "u32_of_bytes le (u32_bytes le v) =
          foldr (\<lambda>b acc. uint b + 256 * acc)
            [word_of_int v, word_of_int (v div 256), word_of_int (v div 65536),
             word_of_int (v div 16777216) :: byte] 0"
    by (cases le) (simp_all only: u32_of_bytes_def u32_bytes_def Let_def if_True if_False
          rev.simps append.simps rev_rev_ident)
  also have "\<dots> = v mod 256 + 256 * ((v div 256) mod 256 + 256 * ((v div 65536) mod 256
          + 256 * ((v div 16777216) mod 256)))"
    by (simp only: foldr4 byte_of_int)
  also have "\<dots> = v"
    by (rule u32_split [OF assms])
  finally show ?thesis using len by simp
qed

lemma join_results_chunks:
  assumes "join_results rs = Inr out"
  shows "\<exists>chunks. rs = map Inr chunks \<and> out = concat chunks"
  using assms
proof (induction rs arbitrary: out)
  case Nil
  then show ?case by simp
next
  case (Cons r rs)
  from Cons.prems obtain b t where r: "r = Inr b" and t: "join_results rs = Inr t"
    and out: "out = b @ t"
    by (auto split: sum.splits)
  from Cons.IH [OF t] obtain chunks where "rs = map Inr chunks" "t = concat chunks"
    by blast
  then have "r # rs = map Inr (b # chunks) \<and> out = concat (b # chunks)"
    using r out by simp
  then show ?case by (rule exI)
qed

lemma pack_entry_shape:
  assumes "pack_entry le (bits, n) = Inr bs"
  shows "0 \<le> n \<and> n < 4294967296 \<and>
         (\<exists>b. bs = b # u32_bytes le n \<and>
              (\<forall>i<8. bit b i \<longleftrightarrow> i < length bits \<and> bits ! i = CHR ''1''))"
proof -
  from assms obtain v b c where v: "int_base2 (rev bits) = Inr v"
    and b: "binchar_pack v = Inr b" and c: "binfloat_pack le n = Inr c" and bs: "bs = b @ c"
    by (auto simp add: pack_entry_def split: sum.splits)
  from c have n: "0 \<le> n" "n < 4294967296" and c': "c = u32_bytes le n"
    by (auto simp add: binfloat_pack_def split: if_splits)
  from b int_base2_rev [OF v] obtain b0 where
    "b = [b0]" "\<forall>i<8. bit b0 i \<longleftrightarrow> i < length bits \<and> bits ! i = CHR ''1''"
    using binchar_pack_bits by blast
  with n c' bs show ?thesis by simp
qed

lemma node_key_inj: "inj (\<lambda>x::string. (length x, x))"
  by (rule injI) simp

lemma sorted_keys_set: "set (sorted_keys buf) = fst ` set (DAList.impl_of buf)"
  by (simp add: sorted_keys_def)

lemma sorted_keys_distinct: "distinct (sorted_keys buf)"
  using DAList.impl_of_distinct [of buf] by (simp add: sorted_keys_def)

lemma sorted_keys_ascending:
  "sorted_wrt (\<lambda>a b. (length a, a) < (length b, b)) (sorted_keys buf)"
proof -
  have "sorted (map (\<lambda>x. (length x, x)) (sorted_keys buf))"
    unfolding sorted_keys_def by (rule sorted_sort_key)
  moreover have "distinct (map (\<lambda>x. (length x, x)) (sorted_keys buf))"
    using sorted_keys_distinct [of buf] node_key_inj
    by (simp add: distinct_map inj_on_def)
  ultimately have "sorted_wrt (<) (map (\<lambda>x. (length x, x)) (sorted_keys buf))"
    by (simp add: strict_sorted_iff)
  then show ?thesis by (simp add: sorted_wrt_map)
qed

lemma sorted_keys_lookup:
  assumes "k \<in> set (sorted_keys buf)"
  shows "\<exists>entry. DAList.lookup buf k = Some entry"
proof -
  from assms have "k \<in> fst ` set (DAList.impl_of buf)"
    by (simp add: sorted_keys_set)
  then have "map_of (DAList.impl_of buf) k \<noteq> None"
    by (simp add: map_of_eq_None_iff)
  then show ?thesis by (auto simp add: DAList.lookup.rep_eq)
qed

lemma serialise_chunks:
  assumes "serialise le buf = Inr out"
  shows "\<exists>chunks. out = concat chunks \<and> length chunks = length (sorted_keys buf) \<and>
           (\<forall>j<length chunks. \<exists>bits n b.
               DAList.lookup buf (sorted_keys buf ! j) = Some (bits, n)
               \<and> chunks ! j = b # u32_bytes le n \<and> 0 \<le> n \<and> n < 4294967296
               \<and> (\<forall>i<8. bit b i \<longleftrightarrow> i < length bits \<and> bits ! i = CHR ''1''))"
proof -
  let ?f = "\<lambda>key. case DAList.lookup buf key of None \<Rightarrow> Inr [] | Some entry \<Rightarrow> pack_entry le entry"
  from assms obtain chunks where m: "map ?f (sorted_keys buf) = map Inr chunks"
    and out: "out = concat chunks"
    unfolding serialise_def using join_results_chunks by blast
  from m have len: "length chunks = length (sorted_keys buf)"
    using length_map by metis
  have "\<exists>bits n b.
          DAList.lookup buf (sorted_keys buf ! j) = Some (bits, n)
          \<and> chunks ! j = b # u32_bytes le n \<and> 0 \<le> n \<and> n < 4294967296
          \<and> (\<forall>i<8. bit b i \<longleftrightarrow> i < length bits \<and> bits ! i = CHR ''1'')"
    if j: "j < length chunks" for j
  proof -
    from j len have "sorted_keys buf ! j \<in> set (sorted_keys buf)" by simp
    then obtain bits n where lk: "DAList.lookup buf (sorted_keys buf ! j) = Some (bits, n)"
      using sorted_keys_lookup by fastforce
    have "?f (sorted_keys buf ! j) = Inr (chunks ! j)"
      using m j len by (metis nth_map)
    with lk have "pack_entry le (bits, n) = Inr (chunks ! j)" by simp
    from pack_entry_shape [OF this] lk show ?thesis by blast
  qed
  with out len show ?thesis by blast
qed

lemma octree_top_returns:
  assumes "octree le s 0 dm box npoints lod psz name st = Inr (st', ret)"
  shows "\<exists>out. ret = Some out \<and> serialise le (buffer st') = Inr out"
proof -
  note run = assms [unfolded octree_unfold]
  from run obtain st2 where "finish_node le 0 st2 = Inr (st', ret)"
    by (auto split: sum.splits if_splits)
  then show ?thesis
    by (auto simp add: finish_node_def split: sum.splits)
qed

text \<open>
  Claim C3. When a hierarchy request finishes (the call at depth 0 returns), the value
  returned is the concatenation of one chunk per recorded node, the nodes taken each once
  in strictly ascending order of (address length, address). The chunk of a node recorded
  with the child array \<open>bits\<close> and the count \<open>n\<close> is one byte \<open>b\<close> followed by the four bytes
  of \<open>n\<close> as an unsigned 32-bit integer in the byte order of the platform (they decode
  back to \<open>n\<close>), and bit \<open>i\<close> of \<open>b\<close> is set exactly when entry \<open>i\<close> of the child array is the
  character 1, that is, when child \<open>i\<close> was marked present.
\<close>

theorem hierarchy_serialised:
  assumes "octree le s 0 dm box npoints lod psz name st = Inr (st', ret)"
  shows "\<exists>out chunks. ret = Some out
      \<and> out = concat chunks
      \<and> length chunks = length (sorted_keys (buffer st'))
      \<and> set (sorted_keys (buffer st')) = fst ` set (DAList.impl_of (buffer st'))
      \<and> distinct (sorted_keys (buffer st'))
      \<and> sorted_wrt (\<lambda>a b. (length a, a) < (length b, b)) (sorted_keys (buffer st'))
      \<and> (\<forall>j<length chunks. \<exists>bits n b.
            DAList.lookup (buffer st') (sorted_keys (buffer st') ! j) = Some (bits, n)
            \<and> chunks ! j = b # u32_bytes le n \<and> 0 \<le> n \<and> n < 4294967296
            \<and> length (u32_bytes le n) = 4 \<and> u32_of_bytes le (u32_bytes le n) = n
            \<and> (\<forall>i<8. bit b i \<longleftrightarrow> i < length bits \<and> bits ! i = CHR ''1''))"
proof -
  from octree_top_returns [OF assms] obtain out where ret: "ret = Some out"
    and ser: "serialise le (buffer st') = Inr out"
    by blast
  from serialise_chunks [OF ser] obtain chunks where out: "out = concat chunks"
    and len: "length chunks = length (sorted_keys (buffer st'))"
    and ch: "\<forall>j<length chunks. \<exists>bits n b.
               DAList.lookup (buffer st') (sorted_keys (buffer st') ! j) = Some (bits, n)
               \<and> chunks ! j = b # u32_bytes le n \<and> 0 \<le> n \<and> n < 4294967296
               \<and> (\<forall>i<8. bit b i \<longleftrightarrow> i < length bits \<and> bits ! i = CHR ''1'')"
    by blast
  have ch': "\<forall>j<length chunks. \<exists>bits n b.
            DAList.lookup (buffer st') (sorted_keys (buffer st') ! j) = Some (bits, n)
            \<and> chunks ! j = b # u32_bytes le n \<and> 0 \<le> n \<and> n < 4294967296
            \<and> length (u32_bytes le n) = 4 \<and> u32_of_bytes le (u32_bytes le n) = n
            \<and> (\<forall>i<8. bit b i \<longleftrightarrow> i < length bits \<and> bits ! i = CHR ''1'')"
  proof (intro allI impI)
    fix j assume "j < length chunks"
    with ch obtain bits n b where
      f: "DAList.lookup (buffer st') (sorted_keys (buffer st') ! j) = Some (bits, n)"
         "chunks ! j = b # u32_bytes le n" "0 \<le> n" "n < 4294967296"
         "\<forall>i<8. bit b i \<longleftrightarrow> i < length bits \<and> bits ! i = CHR ''1''"
      by blast
    from u32_roundtrip [OF f(3,4)] f
    show "\<exists>bits n b.
            DAList.lookup (buffer st') (sorted_keys (buffer st') ! j) = Some (bits, n)
            \<and> chunks ! j = b # u32_bytes le n \<and> 0 \<le> n \<and> n < 4294967296
            \<and> length (u32_bytes le n) = 4 \<and> u32_of_bytes le (u32_bytes le n) = n
            \<and> (\<forall>i<8. bit b i \<longleftrightarrow> i < length bits \<and> bits ! i = CHR ''1'')"
      by blast
  qed
  from ret out len ch' sorted_keys_set sorted_keys_distinct sorted_keys_ascending
  show ?thesis by blast
qed

lemma sample_sorted_keys:
  "sorted_keys (DAList.update [] (''01000000'', 7)
      (DAList.update ''1'' (''00000000'', 300) DAList.empty)) = [[], ''1'']"
  by (simp add: sorted_keys_def DAList.update.rep_eq DAList.empty.rep_eq less_eq_prod_def)

theorem hierarchy_serialised_witness:
  "\<exists>st out chunks.
      octree False sample_tree_session 0 2 (the_bbox 0 0 0 10 10 10) 7 0 100 [] initial_hstate
        = Inr (st, Some out)
      \<and> out = [2, 0, 0, 0, 7, 0, 0, 0, 1, 44]
      \<and> out = concat chunks
      \<and> sorted_keys (buffer st) = [[], ''1'']
      \<and> length chunks = 2
      \<and> DAList.lookup (buffer st) [] = Some (''01000000'', 7)
      \<and> DAList.lookup (buffer st) ''1'' = Some (''00000000'', 300)
      \<and> (\<forall>j<length chunks. \<exists>bits n b.
            DAList.lookup (buffer st) (sorted_keys (buffer st) ! j) = Some (bits, n)
            \<and> chunks ! j = b # u32_bytes False n \<and> 0 \<le> n \<and> n < 4294967296
            \<and> length (u32_bytes False n) = 4 \<and> u32_of_bytes False (u32_bytes False n) = n
            \<and> (\<forall>i<8. bit b i \<longleftrightarrow> i < length bits \<and> bits ! i = CHR ''1''))"
proof -
  obtain st where run:
    "octree False sample_tree_session 0 2 (the_bbox 0 0 0 10 10 10) 7 0 100 [] initial_hstate
       = Inr (st, Some [2, 0, 0, 0, 7, 0, 0, 0, 1, 44])"
    and buf: "buffer st = DAList.update [] (''01000000'', 7)
                        (DAList.update ''1'' (''00000000'', 300) DAList.empty)"
    using sample_run by blast
  from hierarchy_serialised [OF run] obtain out chunks where
    out: "Some [2, 0, 0, 0, 7, 0, 0, 0, 1, 44] = Some out" "out = concat chunks"
    and len: "length chunks = length (sorted_keys (buffer st))"
    and ch: "\<forall>j<length chunks. \<exists>bits n b.
            DAList.lookup (buffer st) (sorted_keys (buffer st) ! j) = Some (bits, n)
            \<and> chunks ! j = b # u32_bytes False n \<and> 0 \<le> n \<and> n < 4294967296
            \<and> length (u32_bytes False n) = 4 \<and> u32_of_bytes False (u32_bytes False n) = n
            \<and> (\<forall>i<8. bit b i \<longleftrightarrow> i < length bits \<and> bits ! i = CHR ''1'')"
    by blast
  have keys: "sorted_keys (buffer st) = [[], ''1'']"
    by (simp only: buf sample_sorted_keys)
  have l0: "DAList.lookup (buffer st) [] = Some (''01000000'', 7)"
    and l1: "DAList.lookup (buffer st) ''1'' = Some (''00000000'', 300)"
    by (simp_all add: buf)
  from out(1) have o: "out = [2, 0, 0, 0, 7, 0, 0, 0, 1, 44]" by simp
  from len keys have len2: "length chunks = 2" by simp
  from run o out(2) keys len2 l0 l1 ch show ?thesis by blast
qed

section \<open>Properties of the tile assembler\<close>

lemma filter_on_xyz_inside:
  assumes "p \<in> set (rows (filter_on_xyz points b))"
  shows "strictly_inside b p \<and> p \<in> set (rows points)"
  using assms by (auto simp add: filter_on_xyz_def strictly_inside_def)

lemma filter_on_xyz_keeps:
  assumes "p \<in> set (rows points)" "strictly_inside b p"
  shows "p \<in> set (rows (filter_on_xyz points b))"
  using assms by (auto simp add: filter_on_xyz_def strictly_inside_def)

lemma box_reduced_edges:
  assumes "box_reduced box scales offsets = Inr rb"
  shows "xmin rb = (xmin box - fst offsets) / fst scales
       \<and> ymin rb = (ymin box - fst (snd offsets)) / fst (snd scales)
       \<and> zmin rb = (zmin box - snd (snd offsets)) / snd (snd scales)
       \<and> xmax rb = (xmax box - fst offsets) / fst scales
       \<and> ymax rb = (ymax box - fst (snd offsets)) / fst (snd scales)
       \<and> zmax rb = (zmax box - snd (snd offsets)) / snd (snd scales)"
  using assms
  by (auto simp add: box_reduced_def the_bbox_def split: prod.splits if_splits)

lemma get_points_retained:
  assumes "get_points shuffle cast s box lod offsets scales isleaf = Inr t"
  shows "\<exists>sql decoded rb.
           sql_query s box lod isleaf = Inr sql
         \<and> point_answer s sql = Inr (Some decoded)
         \<and> box_reduced box scales offsets = Inr rb
         \<and> positions t =
             map (local_position box offsets scales)
               (rows (filter_on_xyz (decoded\<lparr>rows := shuffle (rows decoded)\<rparr>) rb))"
proof -
  from assms obtain sql where q: "sql_query s box lod isleaf = Inr sql"
    by (auto simp add: get_points_def split: sum.splits)
  from assms q obtain blob where a: "point_answer s sql = Inr blob"
    by (auto simp add: get_points_def split: sum.splits)
  from assms q a obtain decoded where d: "read_uncompressed_patch blob = Inr decoded"
    by (auto simp add: get_points_def split: sum.splits)
  then have blob: "blob = Some decoded"
    by (auto simp add: read_uncompressed_patch_def split: option.splits if_splits)
  from assms q a d obtain rb where rb: "box_reduced box scales offsets = Inr rb"
    by (auto simp add: get_points_def split: sum.splits)
  from assms q a d rb have
    "positions t =
       map (local_position box offsets scales)
         (rows (filter_on_xyz (decoded\<lparr>rows := shuffle (rows decoded)\<rparr>) rb))"
    by (auto simp add: get_points_def local_position_def Let_def split: sum.splits prod.splits)
  with q a blob rb show ?thesis by blast
qed

text \<open>
  Claim C8. Whenever \<^verbatim>\<open>get_points\<close> assembles a tile, the node's box was transformed into
  the raw domain of the store, each edge as (edge - offset) / scale on its axis, and the
  points of the tile are exactly the decoded points (in the order of the shuffle) that lie
  strictly inside the reduced box: the positions of the tile are those of the retained
  points, one for one, and on each of the three axes the raw coordinate of a retained
  point is strictly greater than the minimum and strictly less than the maximum of the
  reduced box.
\<close>

theorem tile_points_strictly_inside:
  assumes "get_points shuffle cast s box lod offsets scales isleaf = Inr t"
  shows "\<exists>sql decoded rb kept.
           sql_query s box lod isleaf = Inr sql
         \<and> point_answer s sql = Inr (Some decoded)
         \<and> box_reduced box scales offsets = Inr rb
         \<and> xmin rb = (xmin box - fst offsets) / fst scales
         \<and> ymin rb = (ymin box - fst (snd offsets)) / fst (snd scales)
         \<and> zmin rb = (zmin box - snd (snd offsets)) / snd (snd scales)
         \<and> xmax rb = (xmax box - fst offsets) / fst scales
         \<and> ymax rb = (ymax box - fst (snd offsets)) / fst (snd scales)
         \<and> zmax rb = (zmax box - snd (snd offsets)) / snd (snd scales)
         \<and> positions t = map (local_position box offsets scales) kept
         \<and> kept = filter (strictly_inside rb) (shuffle (rows decoded))
         \<and> (\<forall>p\<in>set kept.
               xmin rb < X p \<and> X p < xmax rb \<and> ymin rb < Y p \<and> Y p < ymax rb
               \<and> zmin rb < Z p \<and> Z p < zmax rb)"
proof -
  from get_points_retained [OF assms] obtain sql decoded rb where
    q: "sql_query s box lod isleaf = Inr sql"
    and a: "point_answer s sql = Inr (Some decoded)"
    and rb: "box_reduced box scales offsets = Inr rb"
    and pos: "positions t =
             map (local_position box offsets scales)
               (rows (filter_on_xyz (decoded\<lparr>rows := shuffle (rows decoded)\<rparr>) rb))"
    by blast
  let ?kept = "rows (filter_on_xyz (decoded\<lparr>rows := shuffle (rows decoded)\<rparr>) rb)"
  have kept: "?kept = filter (strictly_inside rb) (shuffle (rows decoded))"
    by (simp add: filter_on_xyz_def strictly_inside_def conj_commute conj_left_commute
        cong: filter_cong)
  have inside: "\<forall>p\<in>set ?kept.
               xmin rb < X p \<and> X p < xmax rb \<and> ymin rb < Y p \<and> Y p < ymax rb
               \<and> zmin rb < Z p \<and> Z p < zmax rb"
    using filter_on_xyz_inside [of _ "decoded\<lparr>rows := shuffle (rows decoded)\<rparr>" rb]
    by (simp add: strictly_inside_def)
  from q a rb box_reduced_edges [OF rb] pos kept inside show ?thesis by blast
qed

lemma sample_tile:
  "get_points id (\<lambda>p. Inl ValueError) (blob_session (Some (sample_array True)))
     (the_bbox 0 0 0 5 5 5) 1 (1, 1, 1) (2, 2, 2) False
   = Inr \<lparr>header = [1, 3, 3, 3, 3, 4], positions = [(1, 3, 4), (3, 3, 3)],
          colors = [(186, 79, 63, 1), (140, 156, 8, 1)]\<rparr>"
  by (simp add: get_points_def sql_query_def compute_psize_def int_pow8_def psize_before_def
      upto.simps blob_session_def empty_session_def read_uncompressed_patch_def sample_array_def
      sample_point_def box_reduced_def the_bbox_def filter_on_xyz_def colours_of_def
      classification_to_rgb_def class_colour_def fromarrays_cdt_def np_min_def np_max_def
      Let_def)

text \<open>
  Claim C2. A tile request whose decoded points carry neither colour fields nor a
  classification does not produce a tile: the branch builds three columns of zeros and
  hands them to \<^verbatim>\<open>records.fromarrays\<close> with the four fields of \<^verbatim>\<open>cdt\<close>, which raises
  \<^verbatim>\<open>ValueError\<close>; no colour array, of zeros or otherwise, is emitted. With the same points
  and a classification the same request yields a tile (lemma \<open>sample_tile\<close>).
\<close>

theorem no_colour_branch_raises:
  "get_points id (\<lambda>p. Inl ValueError) (blob_session (Some (sample_array False)))
     (the_bbox 0 0 0 5 5 5) 1 (1, 1, 1) (2, 2, 2) False
   = Inl ValueError
   \<and> colours_of (\<lambda>p. Inl ValueError)
       \<lparr>has_rgb = False, has_classification = False, rows = [sample_point 0 1 (3 / 2) 6]\<rparr>
     = Inl ValueError"
  by (simp add: get_points_def sql_query_def compute_psize_def int_pow8_def psize_before_def
      upto.simps blob_session_def empty_session_def read_uncompressed_patch_def sample_array_def
      sample_point_def box_reduced_def the_bbox_def filter_on_xyz_def colours_of_def
      fromarrays_cdt_def Let_def eval_nat_numeral)

text \<open>
  The same holds for every array without colour fields and without a classification,
  whatever the points retained.
\<close>

lemma no_colour_always_raises:
  assumes "\<not> has_rgb points" "\<not> has_classification points"
  shows "colours_of cast points = Inl ValueError"
  using assms by (simp add: colours_of_def fromarrays_cdt_def eval_nat_numeral)

text \<open>
  The tile of three sample points in the box from (0, 0, 0) to (5, 5, 5) with offsets 1
  and scales 2: the reduced box runs from -1/2 to 2, and the point with raw X = 2, on the
  face of the reduced box, is left out.
\<close>

theorem tile_points_strictly_inside_witness:
  "get_points id (\<lambda>p. Inl ValueError) (blob_session (Some (sample_array True)))
     (the_bbox 0 0 0 5 5 5) 1 (1, 1, 1) (2, 2, 2) False
   = Inr \<lparr>header = [1, 3, 3, 3, 3, 4], positions = [(1, 3, 4), (3, 3, 3)],
          colors = [(186, 79, 63, 1), (140, 156, 8, 1)]\<rparr>
   \<and> (\<exists>rb kept.
         box_reduced (the_bbox 0 0 0 5 5 5) (2, 2, 2) (1, 1, 1) = Inr rb
       \<and> rb = the_bbox (- 1 / 2) (- 1 / 2) (- 1 / 2) 2 2 2
       \<and> [(1, 3, 4), (3, 3, 3)]
           = map (local_position (the_bbox 0 0 0 5 5 5) (1, 1, 1) (2, 2, 2)) kept
       \<and> kept = filter (strictly_inside rb) (rows (sample_array True))
       \<and> kept = [sample_point 0 1 (3 / 2) 6, sample_point 1 1 1 5]
       \<and> (\<forall>p\<in>set kept.
             xmin rb < X p \<and> X p < xmax rb \<and> ymin rb < Y p \<and> Y p < ymax rb
             \<and> zmin rb < Z p \<and> Z p < zmax rb))"
proof -
  from tile_points_strictly_inside [OF sample_tile] obtain sql decoded rb kept where
    a: "point_answer (blob_session (Some (sample_array True))) sql = Inr (Some decoded)"
    and rb: "box_reduced (the_bbox 0 0 0 5 5 5) (2, 2, 2) (1, 1, 1) = Inr rb"
    and pos: "positions \<lparr>header = [1, 3, 3, 3, 3, 4], positions = [(1, 3, 4), (3, 3, 3)],
          colors = [(186, 79, 63, 1), (140, 156, 8, 1)]\<rparr>
        = map (local_position (the_bbox 0 0 0 5 5 5) (1, 1, 1) (2, 2, 2)) kept"
    and kept: "kept = filter (strictly_inside rb) (id (rows decoded))"
    and inside: "\<forall>p\<in>set kept.
             xmin rb < X p \<and> X p < xmax rb \<and> ymin rb < Y p \<and> Y p < ymax rb
             \<and> zmin rb < Z p \<and> Z p < zmax rb"
    by blast
  from a have dec: "decoded = sample_array True"
    by (simp add: blob_session_def empty_session_def)
  from rb have rbv: "rb = the_bbox (- 1 / 2) (- 1 / 2) (- 1 / 2) 2 2 2"
    by (simp add: box_reduced_def the_bbox_def)
  from kept have kv: "kept = [sample_point 0 1 (3 / 2) 6, sample_point 1 1 1 5]"
    by (simp add: dec rbv sample_array_def sample_point_def strictly_inside_def the_bbox_def)
  from pos have pos': "[(1, 3, 4), (3, 3, 3)]
           = map (local_position (the_bbox 0 0 0 5 5 5) (1, 1, 1) (2, 2, 2)) kept"
    by simp
  from kept dec have kept': "kept = filter (strictly_inside rb) (rows (sample_array True))"
    by simp
  have ex: "\<exists>rb kept.
         box_reduced (the_bbox 0 0 0 5 5 5) (2, 2, 2) (1, 1, 1) = Inr rb
       \<and> rb = the_bbox (- 1 / 2) (- 1 / 2) (- 1 / 2) 2 2 2
       \<and> [(1, 3, 4), (3, 3, 3)]
           = map (local_position (the_bbox 0 0 0 5 5 5) (1, 1, 1) (2, 2, 2)) kept
       \<and> kept = filter (strictly_inside rb) (rows (sample_array True))
       \<and> kept = [sample_point 0 1 (3 / 2) 6, sample_point 1 1 1 5]
       \<and> (\<forall>p\<in>set kept.
             xmin rb < X p \<and> X p < xmax rb \<and> ymin rb < Y p \<and> Y p < ymax rb
             \<and> zmin rb < Z p \<and> Z p < zmax rb)"
    by (rule exI [of _ rb], rule exI [of _ kept]) (intro conjI rb rbv pos' kept' kv inside)
  show ?thesis
    by (rule conjI [OF sample_tile ex])
qed




end
